theory Spec2Isabelle
  imports Main "HOL-Library.Word"
begin

section \<open>Data model\<close>

text \<open>
  The canister keeps three stable maps and exposes twelve calls. The repository holds two
  copies of the canister: \<^verbatim>\<open>src/dfinity_js_backend/src/index.ts\<close> (called the main file
  below) and a second copy with the same declarations (called the second file).
  Functions that differ between the two are modelled twice, the second file's version
  with the suffix \<open>0\<close>; the others are modelled once.

  Candid \<^verbatim>\<open>nat64\<close> values are JavaScript BigInts in the range of 64 bits; they are
  modelled as 64-bit words. The only arithmetic the code performs on them that can leave
  the range is a subtraction, and every subtraction that is reached is guarded by a
  comparison. Candid \<^verbatim>\<open>text\<close> is modelled as \<open>string\<close>, one \<open>char\<close> per code unit.

  Record fields carry a prefix (\<open>e_\<close>, \<open>lr_\<close>, \<open>lt_\<close>, \<open>ep_\<close>, \<open>lrp_\<close>, \<open>ltp_\<close>), since the
  source uses \<^verbatim>\<open>id\<close>, \<^verbatim>\<open>name\<close> and \<^verbatim>\<open>created_at\<close> in several records.
\<close>

type_synonym nat64 = "64 word"

datatype LeaveName = Annual | Sick | Maternity | Paternity | Unpaid

record LeaveBalances =
  bal_Annual :: nat64
  bal_Sick :: nat64
  bal_Maternity :: nat64
  bal_Paternity :: nat64
  bal_Unpaid :: nat64

record Employee =
  e_id :: string
  e_name :: string
  e_email :: string
  e_phone_number :: string
  e_leave_balances :: LeaveBalances
  e_created_at :: nat64

record LeaveRequest =
  lr_id :: string
  lr_employee_id :: string
  lr_leave_type_id :: string
  lr_start_date :: nat64
  lr_end_date :: nat64
  lr_status :: string
  lr_reason :: string
  lr_created_at :: nat64

record LeaveType =
  lt_id :: string
  lt_name :: LeaveName
  lt_quota :: nat64
  lt_carryover_allowed :: bool
  lt_created_at :: nat64

record EmployeePayload =
  ep_name :: string
  ep_email :: string
  ep_phone_number :: string

record LeaveRequestPayload =
  lrp_employee_id :: string
  lrp_leave_type_id :: string
  lrp_start_date :: nat64
  lrp_end_date :: nat64
  lrp_reason :: string

record LeaveTypePayload =
  ltp_name :: LeaveName
  ltp_quota :: nat64
  ltp_carryover_allowed :: bool

datatype Message = Success string | Error string | NotFound string | InvalidPayload string

text \<open>
  A call returns \<^verbatim>\<open>Ok(value)\<close> or \<^verbatim>\<open>Err(message)\<close>. A statement that throws is not caught
  anywhere in the source, so the call ends there without a reply: \<open>Trap\<close>, with the text
  of the exception. No store is written before any of the throwing statements below.
\<close>

datatype 'a Result = Ok 'a | Err Message | Trap string

subsection \<open>The stable maps\<close>

text \<open>
  A \<^verbatim>\<open>StableBTreeMap\<close> is modelled as an association list with \<^verbatim>\<open>get\<close>, \<^verbatim>\<open>insert\<close> (which
  replaces the value of a key already present), \<^verbatim>\<open>remove\<close> and \<^verbatim>\<open>values\<close>. The order in
  which \<^verbatim>\<open>values()\<close> enumerates is that of first insertion here; the source only tests
  such enumerations for emptiness or for the existence of an element, or returns them.
\<close>

type_synonym 'v sbt = "(string \<times> 'v) list"

definition sbt_get :: "string \<Rightarrow> 'v sbt \<Rightarrow> 'v option" where
  "sbt_get k m = map_of m k"

fun sbt_insert :: "string \<Rightarrow> 'v \<Rightarrow> 'v sbt \<Rightarrow> 'v sbt" where
  "sbt_insert k v [] = [(k, v)]"
| "sbt_insert k v ((k', v') # m) =
     (if k' = k then (k, v) # m else (k', v') # sbt_insert k v m)"

definition sbt_remove :: "string \<Rightarrow> 'v sbt \<Rightarrow> 'v sbt" where
  "sbt_remove k m = filter (\<lambda>kv. fst kv \<noteq> k) m"

definition sbt_values :: "'v sbt \<Rightarrow> 'v list" where
  "sbt_values m = map snd m"

record state =
  employeeStorage :: "Employee sbt"
  leaveRequestStorage :: "LeaveRequest sbt"
  leaveTypeStorage :: "LeaveType sbt"

definition init :: state where
  "init = \<lparr>employeeStorage = [], leaveRequestStorage = [], leaveTypeStorage = []\<rparr>"

subsection \<open>Property access on the balances object\<close>

text \<open>
  \<^verbatim>\<open>leave_balances\<close> is a plain object with the five properties written at line 174 of
  the main file. \<open>get_prop\<close> is the property read \<^verbatim>\<open>obj[key]\<close> (\<open>None\<close> for
  \<^verbatim>\<open>undefined\<close>) and \<open>set_prop\<close> the write \<^verbatim>\<open>obj[key] = v\<close>; a property that is not a
  field of the record does not survive the insertion into the stable map.

  The value of a \<^verbatim>\<open>Variant\<close> is an object whose only key is the tag, as the source itself
  writes and reads such values (\<^verbatim>\<open>Err({ NotFound: error })\<close>, \<^verbatim>\<open>"None" in employeeOpt\<close>,
  \<^verbatim>\<open>employeeOpt.Some\<close>); a \<^verbatim>\<open>LeaveName\<close> is therefore \<^verbatim>\<open>{ Annual: null }\<close> and so on. Used
  as a property key or inside a template literal, an object is converted to the string
  \<^verbatim>\<open>[object Object]\<close>: \<open>toPropertyKey\<close>.

  \<open>category_balance\<close> is not part of the program: it names "the employee's balance for
  the leave category", which the statements below compare with what the code reads.
\<close>

definition get_prop :: "LeaveBalances \<Rightarrow> string \<Rightarrow> nat64 option" where
  "get_prop b k =
     (if k = ''Annual'' then Some (bal_Annual b)
      else if k = ''Sick'' then Some (bal_Sick b)
      else if k = ''Maternity'' then Some (bal_Maternity b)
      else if k = ''Paternity'' then Some (bal_Paternity b)
      else if k = ''Unpaid'' then Some (bal_Unpaid b)
      else None)"

definition set_prop :: "LeaveBalances \<Rightarrow> string \<Rightarrow> nat64 \<Rightarrow> LeaveBalances" where
  "set_prop b k v =
     (if k = ''Annual'' then b\<lparr>bal_Annual := v\<rparr>
      else if k = ''Sick'' then b\<lparr>bal_Sick := v\<rparr>
      else if k = ''Maternity'' then b\<lparr>bal_Maternity := v\<rparr>
      else if k = ''Paternity'' then b\<lparr>bal_Paternity := v\<rparr>
      else if k = ''Unpaid'' then b\<lparr>bal_Unpaid := v\<rparr>
      else b)"

definition toPropertyKey :: "LeaveName \<Rightarrow> string" where
  "toPropertyKey n = ''[object Object]''"

definition nullish :: "'a option \<Rightarrow> 'a \<Rightarrow> 'a" where
  "nullish x d = (case x of None \<Rightarrow> d | Some v \<Rightarrow> v)"

fun category_balance :: "LeaveBalances \<Rightarrow> LeaveName \<Rightarrow> nat64" where
  "category_balance b Annual = bal_Annual b"
| "category_balance b Sick = bal_Sick b"
| "category_balance b Maternity = bal_Maternity b"
| "category_balance b Paternity = bal_Paternity b"
| "category_balance b Unpaid = bal_Unpaid b"

subsection \<open>Regular expressions and number formatting\<close>

text \<open>
  Both regular expressions of \<^verbatim>\<open>createEmployee\<close> are anchored sequences of character
  classes, each with a repetition range. \<open>rx_test\<close> decides whether the whole string
  splits into consecutive blocks, one per item, block \<open>i\<close> made of characters of class
  \<open>i\<close> and of a length in its range (\<open>None\<close> is no upper bound): that is what
  \<^verbatim>\<open>RegExp.test\<close> answers for such an expression.
\<close>

type_synonym rx_item = "(char \<Rightarrow> bool) \<times> nat \<times> nat option"

primrec rx_test :: "rx_item list \<Rightarrow> string \<Rightarrow> bool" where
  "rx_test [] s = (s = [])"
| "rx_test (it # rest) s =
     (case it of (cls, lo, hi) \<Rightarrow>
        (let n = length (takeWhile cls s);
             top = (case hi of None \<Rightarrow> n | Some h \<Rightarrow> min h n)
         in list_ex (\<lambda>k. rx_test rest (drop k s)) [lo ..< Suc top]))"

definition is_space :: "char \<Rightarrow> bool" where
  \<comment> \<open>\<^verbatim>\<open>\s\<close>, for the code units a \<open>char\<close> can hold\<close>
  "is_space c = (c \<in> set [CHR 0x09, CHR 0x0A, CHR 0x0B, CHR 0x0C, CHR 0x0D, CHR 0x20, CHR 0xA0])"

definition is_digit :: "char \<Rightarrow> bool" where
  \<comment> \<open>\<^verbatim>\<open>\d\<close>\<close>
  "is_digit c = (c \<in> set ''0123456789'')"

definition not_space_at :: "char \<Rightarrow> bool" where
  \<comment> \<open>\<^verbatim>\<open>[^\s@]\<close>\<close>
  "not_space_at c = (\<not> is_space c \<and> c \<noteq> CHR ''@'')"

definition emailRegex :: "rx_item list" where
  \<comment> \<open>\<^verbatim>\<open>/^[^\s@]+@[^\s@]+\.[^\s@]+$/\<close>\<close>
  "emailRegex =
     [(not_space_at, 1, None), (\<lambda>c. c = CHR ''@'', 1, Some 1),
      (not_space_at, 1, None), (\<lambda>c. c = CHR ''.'', 1, Some 1),
      (not_space_at, 1, None)]"

definition phoneRegex :: "rx_item list" where
  \<comment> \<open>\<^verbatim>\<open>/^\+?[1-9]\d{1,14}$/\<close>\<close>
  "phoneRegex =
     [(\<lambda>c. c = CHR ''+'', 0, Some 1), (\<lambda>c. c \<in> set ''123456789'', 1, Some 1),
      (is_digit, 1, Some 14)]"

fun dec :: "nat \<Rightarrow> string" where
  "dec n = (if n < 10 then [''0123456789'' ! n]
            else dec (n div 10) @ [''0123456789'' ! (n mod 10)])"

declare dec.simps [simp del]

definition show_nat64 :: "nat64 \<Rightarrow> string" where
  \<comment> \<open>a BigInt inside a template literal\<close>
  "show_nat64 w = dec (unat w)"

section \<open>The operations of the main file\<close>

text \<open>
  \<^verbatim>\<open>uuidv4()\<close> and \<^verbatim>\<open>ic.time()\<close> are inputs of the model: the operations that call them
  take the identifier and the time as their first two arguments.
\<close>

definition defaultBalances :: LeaveBalances where
  "defaultBalances =
     \<lparr>bal_Annual = 20, bal_Sick = 20, bal_Maternity = 20, bal_Paternity = 20, bal_Unpaid = 20\<rparr>"

definition createEmployee ::
  "string \<Rightarrow> nat64 \<Rightarrow> EmployeePayload \<Rightarrow> state \<Rightarrow> Employee Result \<times> state" where
  "createEmployee employeeId now payload s =
     (if ep_name payload = [] \<or> ep_email payload = [] \<or> ep_phone_number payload = [] then
        (Err (InvalidPayload ''Ensure 'name', 'email', and 'phone number' are provided.''), s)
      else if \<not> rx_test emailRegex (ep_email payload) then
        (Err (InvalidPayload ''Invalid email format''), s)
      else if list_ex (\<lambda>emp. e_email emp = ep_email payload) (sbt_values (employeeStorage s)) then
        (Err (InvalidPayload ''Email already exists.''), s)
      else if \<not> rx_test phoneRegex (ep_phone_number payload) then
        (Err (InvalidPayload ''Invalid phone number format.''), s)
      else
        (let employee = \<lparr>e_id = employeeId, e_name = ep_name payload,
                          e_email = ep_email payload,
                          e_phone_number = ep_phone_number payload,
                          e_leave_balances = defaultBalances, e_created_at = now\<rparr>
         in (Ok employee,
             s\<lparr>employeeStorage := sbt_insert employeeId employee (employeeStorage s)\<rparr>)))"

subsection \<open>Helper functions\<close>

definition checkLeaveOverlap :: "state \<Rightarrow> string \<Rightarrow> nat64 \<Rightarrow> nat64 \<Rightarrow> bool" where
  "checkLeaveOverlap s employeeId startDate endDate =
     (let leaveRequests =
            filter (\<lambda>request.
                lr_employee_id request = employeeId \<and>
                lr_status request \<noteq> ''Rejected'' \<and>
                ((startDate \<ge> lr_start_date request \<and> startDate \<le> lr_end_date request) \<or>
                 (endDate \<ge> lr_start_date request \<and> endDate \<le> lr_end_date request)))
              (sbt_values (leaveRequestStorage s))
      in length leaveRequests > 0)"

text \<open>
  Both validation helpers return \<^verbatim>\<open>{ valid: false, error }\<close> (\<open>Inl\<close> here) or
  \<^verbatim>\<open>{ valid: true, ... }\<close> with the record found (\<open>Inr\<close>).
\<close>

definition validateLeaveBalance :: "state \<Rightarrow> Employee \<Rightarrow> string \<Rightarrow> string + LeaveType" where
  "validateLeaveBalance s employee leaveTypeId =
     (case sbt_get leaveTypeId (leaveTypeStorage s) of
        None \<Rightarrow> Inl ''Leave type not found''
      | Some leaveType \<Rightarrow>
          (let balance = nullish (get_prop (e_leave_balances employee)
                                    (toPropertyKey (lt_name leaveType))) 0
           in if balance \<ge> lt_quota leaveType then Inr leaveType
              else Inl ''Insufficient leave balance for this leave type.''))"

definition validateEmployee :: "state \<Rightarrow> string \<Rightarrow> string + Employee" where
  "validateEmployee s employeeId =
     (case sbt_get employeeId (employeeStorage s) of
        None \<Rightarrow> Inl ''Employee not found''
      | Some employee \<Rightarrow> Inr employee)"

subsection \<open>Calls\<close>

definition getEmployees :: "state \<Rightarrow> Employee list Result \<times> state" where
  "getEmployees s =
     (let employees = sbt_values (employeeStorage s)
      in if length employees = 0 then (Err (NotFound ''No employees found''), s)
         else (Ok employees, s))"

definition createLeaveRequest ::
  "string \<Rightarrow> nat64 \<Rightarrow> LeaveRequestPayload \<Rightarrow> state \<Rightarrow> LeaveRequest Result \<times> state" where
  "createLeaveRequest leaveRequestId now payload s =
     (case validateEmployee s (lrp_employee_id payload) of
        Inl error \<Rightarrow> (Err (NotFound error), s)
      | Inr employee \<Rightarrow>
     (case validateLeaveBalance s employee (lrp_leave_type_id payload) of
        Inl balanceError \<Rightarrow> (Err (Error balanceError), s)
      | Inr leaveType \<Rightarrow>
     if checkLeaveOverlap s (lrp_employee_id payload) (lrp_start_date payload)
          (lrp_end_date payload) then
       (Err (Error ''Leave dates overlap with an existing request.''), s)
     else if lrp_start_date payload > lrp_end_date payload then
       (Err (InvalidPayload ''Start date cannot be later than end date.''), s)
     else
       (let leaveRequest =
              \<lparr>lr_id = leaveRequestId, lr_employee_id = lrp_employee_id payload,
               lr_leave_type_id = lrp_leave_type_id payload,
               lr_start_date = lrp_start_date payload,
               lr_end_date = lrp_end_date payload,
               lr_status = ''Pending'', lr_reason = lrp_reason payload,
               lr_created_at = now\<rparr>
        in (Ok leaveRequest,
            s\<lparr>leaveRequestStorage :=
                 sbt_insert leaveRequestId leaveRequest (leaveRequestStorage s)\<rparr>))))"

text \<open>
  \<^verbatim>\<open>deleteEmployee\<close> removes the requests in a \<^verbatim>\<open>forEach\<close> over the array that
  \<^verbatim>\<open>values()\<close> returned, by the \<^verbatim>\<open>id\<close> field of each request.
\<close>

definition deleteEmployee :: "string \<Rightarrow> state \<Rightarrow> Message Result \<times> state" where
  "deleteEmployee employeeId s =
     (case sbt_get employeeId (employeeStorage s) of
        None \<Rightarrow> (Err (NotFound ''Employee not found''), s)
      | Some employee \<Rightarrow>
          (let hasPendingRequests =
                 list_ex (\<lambda>req. lr_employee_id req = employeeId \<and> lr_status req = ''Pending'')
                   (sbt_values (leaveRequestStorage s))
           in if hasPendingRequests then
                (Err (Error ''Cannot delete employee with pending leave requests.''), s)
              else
                (Ok (Success ''Employee and associated leave requests deleted.''),
                 s\<lparr>employeeStorage := sbt_remove employeeId (employeeStorage s),
                   leaveRequestStorage :=
                     fold (\<lambda>req m. if lr_employee_id req = employeeId
                                    then sbt_remove (lr_id req) m else m)
                       (sbt_values (leaveRequestStorage s)) (leaveRequestStorage s)\<rparr>)))"

definition getEmployeeLeaveRequests :: "string \<Rightarrow> state \<Rightarrow> LeaveRequest list Result \<times> state" where
  "getEmployeeLeaveRequests employeeId s =
     (let leaveRequests =
            filter (\<lambda>req. lr_employee_id req = employeeId) (sbt_values (leaveRequestStorage s))
      in if length leaveRequests = 0 then
           (Err (NotFound (''No leave requests found for employee with id '' @ employeeId)), s)
         else (Ok leaveRequests, s))"

definition getLeaveRequests :: "state \<Rightarrow> LeaveRequest list Result \<times> state" where
  "getLeaveRequests s =
     (let leaveRequests = sbt_values (leaveRequestStorage s)
      in if length leaveRequests = 0 then (Err (NotFound ''No leave requests found''), s)
         else (Ok leaveRequests, s))"

text \<open>
  In \<^verbatim>\<open>approveLeaveRequest\<close> the statement
  \<^verbatim>\<open>employee.leave_balances[leaveType.name] -= leaveType.quota\<close> reads the property first;
  when the property is \<^verbatim>\<open>undefined\<close> the subtraction of a BigInt from it throws a
  \<^verbatim>\<open>TypeError\<close>.
\<close>

definition approveLeaveRequest :: "string \<Rightarrow> state \<Rightarrow> Message Result \<times> state" where
  "approveLeaveRequest requestId s =
     (case sbt_get requestId (leaveRequestStorage s) of
        None \<Rightarrow> (Err (NotFound ''Leave request not found''), s)
      | Some leaveRequest \<Rightarrow>
     if lr_status leaveRequest = ''Approved'' then
       (Err (Error ''Leave request is already approved.''), s)
     else
     (case validateEmployee s (lr_employee_id leaveRequest) of
        Inl error \<Rightarrow> (Err (NotFound error), s)
      | Inr employee \<Rightarrow>
     (case validateLeaveBalance s employee (lr_leave_type_id leaveRequest) of
        Inl balanceError \<Rightarrow> (Err (Error balanceError), s)
      | Inr leaveType \<Rightarrow>
     (case get_prop (e_leave_balances employee) (toPropertyKey (lt_name leaveType)) of
        None \<Rightarrow> (Trap ''TypeError: Cannot mix BigInt and other types, use explicit conversions'', s)
      | Some old \<Rightarrow>
          (let employee' = employee\<lparr>e_leave_balances :=
                 set_prop (e_leave_balances employee) (toPropertyKey (lt_name leaveType))
                   (old - lt_quota leaveType)\<rparr>;
               leaveRequest' = leaveRequest\<lparr>lr_status := ''Approved''\<rparr>
           in (Ok (Success ''Leave request approved and leave balance updated.''),
               s\<lparr>leaveRequestStorage :=
                    sbt_insert requestId leaveRequest' (leaveRequestStorage s),
                 employeeStorage :=
                    sbt_insert (e_id employee') employee' (employeeStorage s)\<rparr>))))))"

text \<open>
  In \<^verbatim>\<open>createLeaveType\<close>, \<^verbatim>\<open>!payload.name\<close> is false for every name (an object is truthy)
  and \<^verbatim>\<open>!payload.quota\<close> is true for \<^verbatim>\<open>0n\<close> only.
\<close>

definition createLeaveType ::
  "string \<Rightarrow> nat64 \<Rightarrow> LeaveTypePayload \<Rightarrow> state \<Rightarrow> LeaveType Result \<times> state" where
  "createLeaveType leaveTypeId now payload s =
     (if ltp_quota payload = 0 then
        (Err (InvalidPayload ''Ensure 'name' and 'quota' are provided.''), s)
      else
        (let leaveType = \<lparr>lt_id = leaveTypeId, lt_name = ltp_name payload,
                           lt_quota = ltp_quota payload,
                           lt_carryover_allowed = ltp_carryover_allowed payload,
                           lt_created_at = now\<rparr>
         in (Ok leaveType,
             s\<lparr>leaveTypeStorage := sbt_insert leaveTypeId leaveType (leaveTypeStorage s)\<rparr>)))"

definition getLeaveTypes :: "state \<Rightarrow> LeaveType list Result \<times> state" where
  "getLeaveTypes s =
     (let leaveTypes = sbt_values (leaveTypeStorage s)
      in if length leaveTypes = 0 then (Err (NotFound ''No leave types found''), s)
         else (Ok leaveTypes, s))"

text \<open>
  \<^verbatim>\<open>accrueLeave\<close> calls \<^verbatim>\<open>employee.leave_balances.get(leaveType.name)\<close>. The balances are
  a plain object (the second file's own comment in \<^verbatim>\<open>approveLeaveRequest\<close>: "Since
  leave_balances is a record, we access the property directly"), which has no \<^verbatim>\<open>get\<close>
  method: the call throws a \<^verbatim>\<open>TypeError\<close>, and the statements after it (the subtraction,
  \<^verbatim>\<open>set\<close>, the status \<^verbatim>\<open>"Accrued"\<close> and both \<^verbatim>\<open>insert\<close>s) are never reached. The function is
  the same in both files.
\<close>

definition accrueLeave :: "string \<Rightarrow> state \<Rightarrow> Message Result \<times> state" where
  "accrueLeave leaveRequestId s =
     (case sbt_get leaveRequestId (leaveRequestStorage s) of
        None \<Rightarrow> (Err (NotFound ''Leave request not found''), s)
      | Some leaveRequest \<Rightarrow>
     if lr_status leaveRequest = ''Accrued'' then
       (Err (Error ''Leave request already accrued.''), s)
     else if lr_status leaveRequest \<noteq> ''Approved'' then
       (Err (Error ''Leave request is not approved.''), s)
     else
     (case sbt_get (lr_employee_id leaveRequest) (employeeStorage s) of
        None \<Rightarrow> (Err (NotFound ''Employee not found''), s)
      | Some employee \<Rightarrow>
     (case sbt_get (lr_leave_type_id leaveRequest) (leaveTypeStorage s) of
        None \<Rightarrow> (Err (NotFound ''Leave type not found''), s)
      | Some leaveType \<Rightarrow>
          (Trap ''TypeError: employee.leave_balances.get is not a function'', s))))"

fun report_lines ::
  "state \<Rightarrow> Employee \<Rightarrow> LeaveRequest list \<Rightarrow> string \<Rightarrow> string Result" where
  "report_lines s employee [] report = Ok report"
| "report_lines s employee (request # rest) report =
     (case sbt_get (lr_leave_type_id request) (leaveTypeStorage s) of
        None \<Rightarrow> Err (NotFound (''Leave type not found for request ID: '' @ lr_id request))
      | Some leaveType \<Rightarrow>
          (let leaveBalance = nullish (get_prop (e_leave_balances employee)
                                         (toPropertyKey (lt_name leaveType))) 0
           in report_lines s employee rest
                (report @ ''Leave Request ID: '' @ lr_id request @
                 [CHR 0x0A] @ ''Leave Type: '' @ toPropertyKey (lt_name leaveType) @
                 [CHR 0x0A] @ ''Quota: '' @ show_nat64 (lt_quota leaveType) @
                 [CHR 0x0A] @ ''Remaining Leaves: '' @ show_nat64 leaveBalance @
                 [CHR 0x0A] @ ''Start Date: '' @ show_nat64 (lr_start_date request) @
                 [CHR 0x0A] @ ''End Date: '' @ show_nat64 (lr_end_date request) @
                 [CHR 0x0A] @ ''Status: '' @ lr_status request @
                 [CHR 0x0A] @ ''Reason: '' @ lr_reason request @ [CHR 0x0A, CHR 0x0A])))"

definition generateLeaveReport :: "string \<Rightarrow> state \<Rightarrow> string Result \<times> state" where
  "generateLeaveReport employeeId s =
     (let leaveRequests =
            filter (\<lambda>request. lr_employee_id request = employeeId)
              (sbt_values (leaveRequestStorage s))
      in if length leaveRequests = 0 then
           (Err (NotFound ''No leave requests found for the employee.''), s)
         else
           (case sbt_get employeeId (employeeStorage s) of
              None \<Rightarrow> (Err (NotFound ''Employee not found.''), s)
            | Some employee \<Rightarrow>
                (report_lines s employee leaveRequests
                   (''Leave report for '' @ e_name employee @ '' (Employee ID: '' @
                    e_id employee @ '')'' @ [CHR 0x0A, CHR 0x0A]), s)))"

definition cancelLeaveRequest :: "string \<Rightarrow> state \<Rightarrow> Message Result \<times> state" where
  "cancelLeaveRequest requestId s =
     (case sbt_get requestId (leaveRequestStorage s) of
        None \<Rightarrow> (Err (NotFound ''Leave request not found''), s)
      | Some leaveRequest \<Rightarrow>
          if lr_status leaveRequest = ''Approved'' then
            (Err (Error ''Cannot cancel an approved leave request.''), s)
          else
            (Ok (Success ''Leave request canceled successfully.''),
             s\<lparr>leaveRequestStorage := sbt_remove requestId (leaveRequestStorage s)\<rparr>))"

section \<open>The operations of the second file that differ\<close>

text \<open>
  The second file has no \<^verbatim>\<open>deleteEmployee\<close> and no helper functions. Its
  \<^verbatim>\<open>createEmployee\<close> differs in two message texts, its \<^verbatim>\<open>createLeaveRequest\<close> checks
  that the fields are truthy (a BigInt \<^verbatim>\<open>0n\<close> is not) and that employee and leave type
  exist, and nothing else; its \<^verbatim>\<open>approveLeaveRequest\<close> has the checks inline. The test
  \<^verbatim>\<open>!employee.leave_balances\<close> there is false for every employee (an object is truthy),
  and \<^verbatim>\<open>console.log\<close> has no effect on the stores.
\<close>

definition createEmployee0 ::
  "string \<Rightarrow> nat64 \<Rightarrow> EmployeePayload \<Rightarrow> state \<Rightarrow> Employee Result \<times> state" where
  "createEmployee0 employeeId now payload s =
     (if ep_name payload = [] \<or> ep_email payload = [] \<or> ep_phone_number payload = [] then
        (Err (InvalidPayload ''Ensure 'name' and 'email' are provided.''), s)
      else if \<not> rx_test emailRegex (ep_email payload) then
        (Err (InvalidPayload ''Invalid email format''), s)
      else if list_ex (\<lambda>employee. e_email employee = ep_email payload)
                (sbt_values (employeeStorage s)) then
        (Err (InvalidPayload ''Email already exists.''), s)
      else if \<not> rx_test phoneRegex (ep_phone_number payload) then
        (Err (InvalidPayload
           ''Invalid phone number format, try including your country code like a world traveler!''), s)
      else
        (let employee = \<lparr>e_id = employeeId, e_name = ep_name payload,
                          e_email = ep_email payload,
                          e_phone_number = ep_phone_number payload,
                          e_leave_balances = defaultBalances, e_created_at = now\<rparr>
         in (Ok employee,
             s\<lparr>employeeStorage := sbt_insert employeeId employee (employeeStorage s)\<rparr>)))"

definition createLeaveRequest0 ::
  "string \<Rightarrow> nat64 \<Rightarrow> LeaveRequestPayload \<Rightarrow> state \<Rightarrow> LeaveRequest Result \<times> state" where
  "createLeaveRequest0 leaveRequestId now payload s =
     (if lrp_employee_id payload = [] \<or> lrp_leave_type_id payload = [] \<or>
         lrp_start_date payload = 0 \<or> lrp_end_date payload = 0 \<or> lrp_reason payload = [] then
        (Err (InvalidPayload
           ''Ensure 'employee_id', 'leave_type_id', 'start_date', 'end_date', and 'reason' are provided.''), s)
      else
      (case sbt_get (lrp_employee_id payload) (employeeStorage s) of
         None \<Rightarrow> (Err (NotFound ''Employee not found''), s)
       | Some employee \<Rightarrow>
      (case sbt_get (lrp_leave_type_id payload) (leaveTypeStorage s) of
         None \<Rightarrow> (Err (NotFound ''Leave type not found''), s)
       | Some leaveType \<Rightarrow>
           (let leaveRequest =
                  \<lparr>lr_id = leaveRequestId, lr_employee_id = lrp_employee_id payload,
                   lr_leave_type_id = lrp_leave_type_id payload,
                   lr_start_date = lrp_start_date payload,
                   lr_end_date = lrp_end_date payload,
                   lr_status = ''Pending'', lr_reason = lrp_reason payload,
                   lr_created_at = now\<rparr>
            in (Ok leaveRequest,
                s\<lparr>leaveRequestStorage :=
                     sbt_insert leaveRequestId leaveRequest (leaveRequestStorage s)\<rparr>)))))"

definition approveLeaveRequest0 :: "string \<Rightarrow> state \<Rightarrow> Message Result \<times> state" where
  "approveLeaveRequest0 requestId s =
     (case sbt_get requestId (leaveRequestStorage s) of
        None \<Rightarrow> (Err (NotFound ''Leave request not found''), s)
      | Some leaveRequest \<Rightarrow>
     if lr_status leaveRequest = ''Approved'' then
       (Err (Error ''Leave request is already approved.''), s)
     else
     (case sbt_get (lr_employee_id leaveRequest) (employeeStorage s) of
        None \<Rightarrow> (Err (NotFound ''Employee not found''), s)
      | Some employee \<Rightarrow>
     (case sbt_get (lr_leave_type_id leaveRequest) (leaveTypeStorage s) of
        None \<Rightarrow> (Err (NotFound ''Leave type not found''), s)
      | Some leaveType \<Rightarrow>
          (let balance = nullish (get_prop (e_leave_balances employee)
                                    (toPropertyKey (lt_name leaveType))) 0
           in if balance < lt_quota leaveType then
                (Err (Error (''Insufficient leave balance for this leave type. Available: '' @
                             show_nat64 balance @ '', Required: '' @
                             show_nat64 (lt_quota leaveType))), s)
              else
                (let employee' = employee\<lparr>e_leave_balances :=
                       set_prop (e_leave_balances employee) (toPropertyKey (lt_name leaveType))
                         (balance - lt_quota leaveType)\<rparr>;
                     leaveRequest' = leaveRequest\<lparr>lr_status := ''Approved''\<rparr>
                 in (Ok (Success ''Leave request approved and leave balance updated.''),
                     s\<lparr>leaveRequestStorage :=
                          sbt_insert requestId leaveRequest' (leaveRequestStorage s),
                       employeeStorage :=
                          sbt_insert (e_id employee') employee' (employeeStorage s)\<rparr>))))))"

section \<open>The canister as a transition system\<close>

text \<open>
  One constructor per call of the main file, with the identifier and the time that the
  call draws where it draws them. \<open>step\<close> runs a call; \<open>reachable\<close> are the states the
  canister can be in, for any identifiers and times.
\<close>

datatype op =
    CreateEmployee string nat64 EmployeePayload
  | GetEmployees
  | CreateLeaveRequest string nat64 LeaveRequestPayload
  | DeleteEmployee string
  | GetEmployeeLeaveRequests string
  | GetLeaveRequests
  | ApproveLeaveRequest string
  | CreateLeaveType string nat64 LeaveTypePayload
  | GetLeaveTypes
  | AccrueLeave string
  | GenerateLeaveReport string
  | CancelLeaveRequest string

datatype reply =
    REmployee Employee
  | REmployees "Employee list"
  | RLeaveRequest LeaveRequest
  | RLeaveRequests "LeaveRequest list"
  | RLeaveType LeaveType
  | RLeaveTypes "LeaveType list"
  | RMessage Message
  | RText string

fun as_reply :: "('a \<Rightarrow> reply) \<Rightarrow> 'a Result \<times> state \<Rightarrow> reply Result \<times> state" where
  "as_reply f (Ok v, s) = (Ok (f v), s)"
| "as_reply f (Err m, s) = (Err m, s)"
| "as_reply f (Trap e, s) = (Trap e, s)"

fun step :: "op \<Rightarrow> state \<Rightarrow> reply Result \<times> state" where
  "step (CreateEmployee u t p) s = as_reply REmployee (createEmployee u t p s)"
| "step GetEmployees s = as_reply REmployees (getEmployees s)"
| "step (CreateLeaveRequest u t p) s = as_reply RLeaveRequest (createLeaveRequest u t p s)"
| "step (DeleteEmployee e) s = as_reply RMessage (deleteEmployee e s)"
| "step (GetEmployeeLeaveRequests e) s = as_reply RLeaveRequests (getEmployeeLeaveRequests e s)"
| "step GetLeaveRequests s = as_reply RLeaveRequests (getLeaveRequests s)"
| "step (ApproveLeaveRequest r) s = as_reply RMessage (approveLeaveRequest r s)"
| "step (CreateLeaveType u t p) s = as_reply RLeaveType (createLeaveType u t p s)"
| "step GetLeaveTypes s = as_reply RLeaveTypes (getLeaveTypes s)"
| "step (AccrueLeave r) s = as_reply RMessage (accrueLeave r s)"
| "step (GenerateLeaveReport e) s = as_reply RText (generateLeaveReport e s)"
| "step (CancelLeaveRequest r) s = as_reply RMessage (cancelLeaveRequest r s)"

inductive reachable_from :: "state \<Rightarrow> state \<Rightarrow> bool" for s0 :: state where
  start: "reachable_from s0 s0"
| call: "reachable_from s0 s \<Longrightarrow> reachable_from s0 (snd (step c s))"

definition reachable :: "state \<Rightarrow> bool" where
  "reachable s = reachable_from init s"

text \<open>
  Every record is stored under its own \<^verbatim>\<open>id\<close>, and a map holds a key once. The
  statements about \<^verbatim>\<open>deleteEmployee\<close> and about the listing after a cancellation rest on
  it, since the code removes and lists requests through their \<^verbatim>\<open>id\<close> field.
\<close>

definition keyed :: "('v \<Rightarrow> string) \<Rightarrow> 'v sbt \<Rightarrow> bool" where
  "keyed f m = (distinct (map fst m) \<and> list_all (\<lambda>kv. f (snd kv) = fst kv) m)"

definition wf_state :: "state \<Rightarrow> bool" where
  "wf_state s = (keyed e_id (employeeStorage s) \<and> keyed lr_id (leaveRequestStorage s))"

definition statuses_ok :: "state \<Rightarrow> bool" where
  "statuses_ok s =
     list_all (\<lambda>r. lr_status r \<in> set [''Pending'', ''Approved'', ''Accrued''])
       (sbt_values (leaveRequestStorage s))"

definition no_rejected :: "state \<Rightarrow> bool" where
  "no_rejected s =
     list_all (\<lambda>r. lr_status r \<noteq> ''Rejected'') (sbt_values (leaveRequestStorage s))"

text \<open>
  \<^verbatim>\<open>createLeaveType\<close> stores no leave type with the quota 0.
\<close>

definition quotas_nonzero :: "state \<Rightarrow> bool" where
  "quotas_nonzero s = list_all (\<lambda>lt. lt_quota lt \<noteq> 0) (sbt_values (leaveTypeStorage s))"

section \<open>Example data\<close>

text \<open>
  The example of the specification: an employee with the default balances, a leave type
  "Annual" with quota 5, and a request from day 1 to day 3. A second leave type has a
  quota above every balance, a third one the quota 0 (which \<^verbatim>\<open>createLeaveType\<close> does
  not accept, but the type \<^verbatim>\<open>nat64\<close> allows).
\<close>

definition ex_employeePayload :: EmployeePayload where
  "ex_employeePayload =
     \<lparr>ep_name = ''Ada'', ep_email = ''ada@example.com'', ep_phone_number = ''+254712345678''\<rparr>"

definition ex_employee :: Employee where
  "ex_employee =
     \<lparr>e_id = ''e1'', e_name = ''Ada'', e_email = ''ada@example.com'',
      e_phone_number = ''+254712345678'', e_leave_balances = defaultBalances,
      e_created_at = 1\<rparr>"

definition ex_annual :: LeaveType where
  "ex_annual = \<lparr>lt_id = ''t1'', lt_name = Annual, lt_quota = 5,
                lt_carryover_allowed = False, lt_created_at = 2\<rparr>"

definition ex_sick :: LeaveType where
  "ex_sick = \<lparr>lt_id = ''t2'', lt_name = Sick, lt_quota = 25,
              lt_carryover_allowed = False, lt_created_at = 2\<rparr>"

definition ex_unpaid :: LeaveType where
  "ex_unpaid = \<lparr>lt_id = ''t3'', lt_name = Unpaid, lt_quota = 0,
                lt_carryover_allowed = False, lt_created_at = 2\<rparr>"

definition ex_requestPayload :: LeaveRequestPayload where
  "ex_requestPayload =
     \<lparr>lrp_employee_id = ''e1'', lrp_leave_type_id = ''t1'', lrp_start_date = 1,
      lrp_end_date = 3, lrp_reason = ''holiday''\<rparr>"

definition ex_request :: LeaveRequest where
  "ex_request =
     \<lparr>lr_id = ''r1'', lr_employee_id = ''e1'', lr_leave_type_id = ''t1'',
      lr_start_date = 1, lr_end_date = 3, lr_status = ''Pending'',
      lr_reason = ''holiday'', lr_created_at = 3\<rparr>"

definition ex_other :: LeaveRequest where
  "ex_other =
     \<lparr>lr_id = ''r2'', lr_employee_id = ''e2'', lr_leave_type_id = ''t1'',
      lr_start_date = 10, lr_end_date = 12, lr_status = ''Pending'',
      lr_reason = ''travel'', lr_created_at = 4\<rparr>"

text \<open>The stores after registration and the creation of the request.\<close>

definition ex_pending :: state where
  "ex_pending =
     \<lparr>employeeStorage = [(''e1'', ex_employee)],
      leaveRequestStorage = [(''r1'', ex_request)],
      leaveTypeStorage = [(''t1'', ex_annual)]\<rparr>"

text \<open>
  The stores as the specification's example describes them after the approval: the
  request approved and the annual balance at 15.
\<close>

definition ex_approved :: state where
  "ex_approved =
     \<lparr>employeeStorage =
        [(''e1'', ex_employee\<lparr>e_leave_balances := defaultBalances\<lparr>bal_Annual := 15\<rparr>\<rparr>)],
      leaveRequestStorage = [(''r1'', ex_request\<lparr>lr_status := ''Approved''\<rparr>), (''r2'', ex_other)],
      leaveTypeStorage = [(''t1'', ex_annual)]\<rparr>"

text \<open>Stores with all three leave types and two requests of different employees.\<close>

definition ex_stores :: state where
  "ex_stores =
     \<lparr>employeeStorage = [(''e1'', ex_employee)],
      leaveRequestStorage = [(''r1'', ex_request), (''r2'', ex_other)],
      leaveTypeStorage = [(''t1'', ex_annual), (''t2'', ex_sick), (''t3'', ex_unpaid)]\<rparr>"

text \<open>
  Payloads for further requests of the same employee: one that starts inside the window
  of the stored request, one for the leave type with quota 0, and one whose start date
  is after its end date; and the stores after the creation of the second.
\<close>

definition ex_overlapPayload :: LeaveRequestPayload where
  "ex_overlapPayload =
     \<lparr>lrp_employee_id = ''e1'', lrp_leave_type_id = ''t1'', lrp_start_date = 2,
      lrp_end_date = 5, lrp_reason = ''more''\<rparr>"

definition ex_unpaidPayload :: LeaveRequestPayload where
  "ex_unpaidPayload =
     \<lparr>lrp_employee_id = ''e1'', lrp_leave_type_id = ''t3'', lrp_start_date = 20,
      lrp_end_date = 22, lrp_reason = ''unpaid''\<rparr>"

definition ex_swappedPayload :: LeaveRequestPayload where
  "ex_swappedPayload =
     \<lparr>lrp_employee_id = ''e1'', lrp_leave_type_id = ''t3'', lrp_start_date = 5,
      lrp_end_date = 2, lrp_reason = ''swapped''\<rparr>"

definition ex_unpaidCreated :: state where
  "ex_unpaidCreated =
     ex_stores\<lparr>leaveRequestStorage :=
        [(''r1'', ex_request), (''r2'', ex_other),
         (''r3'', \<lparr>lr_id = ''r3'', lr_employee_id = ''e1'', lr_leave_type_id = ''t3'',
          lr_start_date = 20, lr_end_date = 22, lr_status = ''Pending'',
          lr_reason = ''unpaid'', lr_created_at = 5\<rparr>)]\<rparr>"

text \<open>The registration of the leave type, and the stores before the request is created.\<close>

definition ex_annualPayload :: LeaveTypePayload where
  "ex_annualPayload = \<lparr>ltp_name = Annual, ltp_quota = 5, ltp_carryover_allowed = False\<rparr>"

definition ex_registered :: state where
  "ex_registered =
     \<lparr>employeeStorage = [(''e1'', ex_employee)], leaveRequestStorage = [],
      leaveTypeStorage = [(''t1'', ex_annual)]\<rparr>"

section \<open>Facts about the stores and the helpers\<close>

lemma get_prop_toPropertyKey: "get_prop b (toPropertyKey n) = None"
  by (simp add: get_prop_def toPropertyKey_def)

lemma validateLeaveBalance_eq:
  "validateLeaveBalance s e tid =
     (case sbt_get tid (leaveTypeStorage s) of
        None \<Rightarrow> Inl ''Leave type not found''
      | Some lt \<Rightarrow> if lt_quota lt = 0 then Inr lt
                   else Inl ''Insufficient leave balance for this leave type.'')"
  by (simp add: validateLeaveBalance_def get_prop_toPropertyKey nullish_def split: option.splits)

lemma approveLeaveRequest_state: "snd (approveLeaveRequest r s) = s"
  by (simp add: approveLeaveRequest_def get_prop_toPropertyKey split: option.splits sum.splits)

lemma accrueLeave_state: "snd (accrueLeave r s) = s"
  by (simp add: accrueLeave_def split: option.splits)

subsection \<open>Stable maps\<close>

lemma sbt_get_insert: "sbt_get k' (sbt_insert k v m) = (if k' = k then Some v else sbt_get k' m)"
  by (induction m) (auto simp: sbt_get_def)

lemma sbt_get_remove: "sbt_get k' (sbt_remove k m) = (if k' = k then None else sbt_get k' m)"
  by (induction m) (auto simp: sbt_get_def sbt_remove_def)

lemma sbt_get_filter:
  "sbt_get k' (filter (\<lambda>kv. fst kv \<noteq> k) m) = (if k' = k then None else sbt_get k' m)"
  using sbt_get_remove [of k' k m] by (simp add: sbt_remove_def)

lemma set_insert_subset: "set (sbt_insert k v m) \<subseteq> insert (k, v) (set m)"
  by (induction m) (auto split: if_splits)

lemma sbt_in_set_insert: "(k, v) \<in> set (sbt_insert k v m)"
  by (induction m) auto

lemma map_fst_insert:
  "map fst (sbt_insert k v m) = (if k \<in> set (map fst m) then map fst m else map fst m @ [k])"
  by (induction m) (fastforce simp: image_iff)+

lemma sbt_distinct_insert: "distinct (map fst m) \<Longrightarrow> distinct (map fst (sbt_insert k v m))"
  by (simp add: map_fst_insert)

lemma keyed_insert: "keyed f m \<Longrightarrow> f v = k \<Longrightarrow> keyed f (sbt_insert k v m)"
  using set_insert_subset[of k v m]
  by (auto simp: keyed_def sbt_distinct_insert list_all_iff)

lemma keyed_filter: "keyed f m \<Longrightarrow> keyed f (filter P m)"
  by (auto simp: keyed_def list_all_iff distinct_map_filter)

lemma keyed_remove: "keyed f m \<Longrightarrow> keyed f (sbt_remove k m)"
  by (simp add: sbt_remove_def keyed_filter)

lemma fold_remove:
  "fold (\<lambda>req m. if P req then sbt_remove (f req) m else m) rs m =
     filter (\<lambda>kv. fst kv \<notin> f ` {r \<in> set rs. P r}) m"
proof (induction rs arbitrary: m)
  case Nil
  show ?case by simp
next
  case (Cons r rs)
  show ?case
    by (auto simp: Cons.IH sbt_remove_def intro!: filter_cong)
qed

lemma keyed_get: "keyed f m \<Longrightarrow> (k, v) \<in> set m \<Longrightarrow> sbt_get k m = Some v"
  by (simp add: keyed_def sbt_get_def)

lemma keyed_id: "keyed f m \<Longrightarrow> (k, v) \<in> set m \<Longrightarrow> f v = k"
  by (auto simp: keyed_def list_all_iff)

lemma get_in_set: "sbt_get k m = Some v \<Longrightarrow> (k, v) \<in> set m"
  by (simp add: sbt_get_def map_of_SomeD)

lemma delete_requests:
  assumes "keyed lr_id m"
  shows "fold (\<lambda>req m. if lr_employee_id req = e then sbt_remove (lr_id req) m else m)
           (sbt_values m) m = filter (\<lambda>kv. lr_employee_id (snd kv) \<noteq> e) m"
proof -
  have "\<And>kv. kv \<in> set m \<Longrightarrow>
          (fst kv \<notin> lr_id ` {r \<in> set (sbt_values m). lr_employee_id r = e}) =
          (lr_employee_id (snd kv) \<noteq> e)"
  proof -
    fix kv assume kv: "kv \<in> set m"
    obtain k v where [simp]: "kv = (k, v)" by (cases kv)
    have id: "lr_id v = k" using assms kv keyed_id by fastforce
    show "(fst kv \<notin> lr_id ` {r \<in> set (sbt_values m). lr_employee_id r = e}) =
          (lr_employee_id (snd kv) \<noteq> e)"
    proof
      assume a: "fst kv \<notin> lr_id ` {r \<in> set (sbt_values m). lr_employee_id r = e}"
      have "v \<in> set (sbt_values m)" using kv by (force simp: sbt_values_def)
      with a id show "lr_employee_id (snd kv) \<noteq> e" by auto
    next
      assume b: "lr_employee_id (snd kv) \<noteq> e"
      show "fst kv \<notin> lr_id ` {r \<in> set (sbt_values m). lr_employee_id r = e}"
      proof
        assume "fst kv \<in> lr_id ` {r \<in> set (sbt_values m). lr_employee_id r = e}"
        then obtain r where r: "r \<in> set (sbt_values m)" "lr_employee_id r = e" "lr_id r = k"
          by auto
        then obtain k' where k': "(k', r) \<in> set m" by (auto simp: sbt_values_def)
        with assms have "lr_id r = k'" using keyed_id by fastforce
        with r k' have "(k, r) \<in> set m" by simp
        with assms kv have "r = v"
          using keyed_get[of lr_id m k r] keyed_get[of lr_id m k v] by simp
        with r b show False by simp
      qed
    qed
  qed
  then show ?thesis
    by (simp add: fold_remove cong: filter_cong)
qed

lemma sbt_values_remove_subset: "set (sbt_values (sbt_remove k m)) \<subseteq> set (sbt_values m)"
  by (auto simp: sbt_values_def sbt_remove_def)


subsection \<open>Failed calls\<close>

lemma as_reply_fst_Err: "(fst (as_reply f x) = Err m) = (fst x = Err m)"
  by (cases "(f, x)" rule: as_reply.cases) auto

lemma as_reply_snd: "snd (as_reply f x) = snd x"
  by (cases "(f, x)" rule: as_reply.cases) auto

lemma createEmployee_Err: "fst (createEmployee u t p s) = Err m \<Longrightarrow> snd (createEmployee u t p s) = s"
  by (auto simp: createEmployee_def Let_def split: if_splits)

lemma createEmployee0_Err: "fst (createEmployee0 u t p s) = Err m \<Longrightarrow> snd (createEmployee0 u t p s) = s"
  by (auto simp: createEmployee0_def Let_def split: if_splits)

lemma createLeaveRequest_Err:
  "fst (createLeaveRequest u t p s) = Err m \<Longrightarrow> snd (createLeaveRequest u t p s) = s"
  by (auto simp: createLeaveRequest_def Let_def split: if_splits sum.splits)

lemma createLeaveRequest0_Err:
  "fst (createLeaveRequest0 u t p s) = Err m \<Longrightarrow> snd (createLeaveRequest0 u t p s) = s"
  by (auto simp: createLeaveRequest0_def Let_def split: if_splits option.splits)

lemma deleteEmployee_Err: "fst (deleteEmployee e s) = Err m \<Longrightarrow> snd (deleteEmployee e s) = s"
  by (auto simp: deleteEmployee_def Let_def split: if_splits option.splits)

lemma approveLeaveRequest0_Err:
  "fst (approveLeaveRequest0 r s) = Err m \<Longrightarrow> snd (approveLeaveRequest0 r s) = s"
  by (auto simp: approveLeaveRequest0_def Let_def split: if_splits option.splits)

lemma createLeaveType_Err:
  "fst (createLeaveType u t p s) = Err m \<Longrightarrow> snd (createLeaveType u t p s) = s"
  by (auto simp: createLeaveType_def Let_def split: if_splits)

lemma cancelLeaveRequest_Err:
  "fst (cancelLeaveRequest r s) = Err m \<Longrightarrow> snd (cancelLeaveRequest r s) = s"
  by (auto simp: cancelLeaveRequest_def split: if_splits option.splits)

lemma queries_state:
  "snd (getEmployees s) = s" "snd (getEmployeeLeaveRequests e s) = s"
  "snd (getLeaveRequests s) = s" "snd (getLeaveTypes s) = s"
  "snd (generateLeaveReport e s) = s"
  by (simp_all add: getEmployees_def getEmployeeLeaveRequests_def getLeaveRequests_def
        getLeaveTypes_def generateLeaveReport_def Let_def split: option.splits)

lemma step_Err: "fst (step c s) = Err m \<Longrightarrow> snd (step c s) = s"
  by (cases c)
     (simp_all add: as_reply_fst_Err as_reply_snd createEmployee_Err createLeaveRequest_Err
        deleteEmployee_Err createLeaveType_Err cancelLeaveRequest_Err queries_state
        approveLeaveRequest_state accrueLeave_state)

lemma word_below_quota: "(b :: nat64) < q \<Longrightarrow> q \<noteq> 0"
  by auto

subsection \<open>Invariants of the transition system\<close>

lemma step_requests:
  "r \<in> set (sbt_values (leaveRequestStorage (snd (step c s)))) \<Longrightarrow>
   r \<in> set (sbt_values (leaveRequestStorage s)) \<or> lr_status r = ''Pending''"
proof (cases c)
  case (CreateLeaveRequest u t p)
  assume "r \<in> set (sbt_values (leaveRequestStorage (snd (step c s))))"
  then show ?thesis
    using set_insert_subset [of u _ "leaveRequestStorage s"]
    by (fastforce simp: CreateLeaveRequest as_reply_snd createLeaveRequest_def Let_def sbt_values_def
          split: sum.splits if_splits)
next
  case (DeleteEmployee e)
  assume "r \<in> set (sbt_values (leaveRequestStorage (snd (step c s))))"
  then show ?thesis
    by (auto simp: DeleteEmployee as_reply_snd deleteEmployee_def Let_def fold_remove sbt_values_def
          split: option.splits if_splits)
next
  case (CancelLeaveRequest x)
  assume "r \<in> set (sbt_values (leaveRequestStorage (snd (step c s))))"
  then show ?thesis
    using sbt_values_remove_subset [of x "leaveRequestStorage s"]
    by (auto simp: CancelLeaveRequest as_reply_snd cancelLeaveRequest_def
          split: option.splits if_splits)
next
  case (CreateEmployee u t p)
  assume "r \<in> set (sbt_values (leaveRequestStorage (snd (step c s))))"
  then show ?thesis
    by (auto simp: CreateEmployee as_reply_snd createEmployee_def Let_def split: if_splits)
next
  case (CreateLeaveType u t p)
  assume "r \<in> set (sbt_values (leaveRequestStorage (snd (step c s))))"
  then show ?thesis
    by (auto simp: CreateLeaveType as_reply_snd createLeaveType_def Let_def split: if_splits)
qed (simp_all add: as_reply_snd queries_state approveLeaveRequest_state accrueLeave_state)

lemma statuses_ok_step: "statuses_ok s \<Longrightarrow> statuses_ok (snd (step c s))"
  using step_requests [of _ c s]
  by (auto simp: statuses_ok_def list_all_iff)

lemma statuses_ok_reachable_from: "reachable_from s0 s \<Longrightarrow> statuses_ok s0 \<Longrightarrow> statuses_ok s"
  by (induction rule: reachable_from.induct) (auto intro: statuses_ok_step)

lemma statuses_ok_no_rejected: "statuses_ok s \<Longrightarrow> no_rejected s"
  by (auto simp: statuses_ok_def no_rejected_def list_all_iff)

lemma statuses_ok_init: "statuses_ok init"
  by (simp add: statuses_ok_def init_def sbt_values_def)

lemma wf_state_step: "wf_state s \<Longrightarrow> wf_state (snd (step c s))"
proof (cases c)
  case (CreateEmployee u t p)
  assume "wf_state s"
  then show ?thesis
    by (auto simp: CreateEmployee as_reply_snd createEmployee_def Let_def wf_state_def
          intro: keyed_insert split: if_splits)
next
  case (CreateLeaveRequest u t p)
  assume "wf_state s"
  then show ?thesis
    by (auto simp: CreateLeaveRequest as_reply_snd createLeaveRequest_def Let_def wf_state_def
          intro: keyed_insert split: if_splits sum.splits)
next
  case (DeleteEmployee e)
  assume "wf_state s"
  then show ?thesis
    by (auto simp: DeleteEmployee as_reply_snd deleteEmployee_def Let_def wf_state_def fold_remove
          intro: keyed_remove keyed_filter split: if_splits option.splits)
next
  case (CreateLeaveType u t p)
  assume "wf_state s"
  then show ?thesis
    by (auto simp: CreateLeaveType as_reply_snd createLeaveType_def Let_def wf_state_def
          split: if_splits)
next
  case (CancelLeaveRequest x)
  assume "wf_state s"
  then show ?thesis
    by (auto simp: CancelLeaveRequest as_reply_snd cancelLeaveRequest_def wf_state_def
          intro: keyed_remove split: if_splits option.splits)
qed (simp_all add: as_reply_snd queries_state approveLeaveRequest_state accrueLeave_state)

lemma wf_state_init: "wf_state init"
  by (simp add: wf_state_def keyed_def init_def)

lemma wf_state_reachable_from: "reachable_from s0 s \<Longrightarrow> wf_state s0 \<Longrightarrow> wf_state s"
  by (induction rule: reachable_from.induct) (auto intro: wf_state_step)

lemma reachable_wf_state: "reachable s \<Longrightarrow> wf_state s"
  using wf_state_reachable_from [of init s] wf_state_init by (simp add: reachable_def)

text \<open>
  The main file never stores a request: \<^verbatim>\<open>validateLeaveBalance\<close> compares the quota
  with \<^verbatim>\<open>0n\<close>, and no stored leave type has the quota 0. The statements about stored
  requests below hold for all stores, reachable or not.
\<close>

lemma quotas_nonzero_get:
  "quotas_nonzero s \<Longrightarrow> sbt_get k (leaveTypeStorage s) = Some lt \<Longrightarrow> lt_quota lt \<noteq> 0"
  using get_in_set [of k "leaveTypeStorage s" lt]
  by (force simp: quotas_nonzero_def list_all_iff sbt_values_def)

lemma createLeaveRequest_nonzero:
  "quotas_nonzero s \<Longrightarrow> fst (createLeaveRequest u t p s) \<noteq> Ok r"
  using quotas_nonzero_get [of s "lrp_leave_type_id p"]
  by (auto simp: createLeaveRequest_def validateLeaveBalance_eq split: sum.splits option.splits)

lemma no_requests_step:
  assumes "quotas_nonzero s" and "leaveRequestStorage s = []"
  shows "quotas_nonzero (snd (step c s)) \<and> leaveRequestStorage (snd (step c s)) = []"
proof (cases c)
  case (CreateEmployee u t p)
  with assms show ?thesis
    by (auto simp: as_reply_snd createEmployee_def Let_def quotas_nonzero_def split: if_splits)
next
  case (CreateLeaveRequest u t p)
  have "snd (createLeaveRequest u t p s) = s"
    using createLeaveRequest_nonzero [OF assms(1), of u t p] createLeaveRequest_Err [of u t p s]
    by (cases "fst (createLeaveRequest u t p s)")
       (auto simp: createLeaveRequest_def Let_def split: sum.splits if_splits)
  with assms CreateLeaveRequest show ?thesis
    by (simp add: as_reply_snd)
next
  case (DeleteEmployee e)
  with assms show ?thesis
    by (auto simp: as_reply_snd deleteEmployee_def Let_def quotas_nonzero_def sbt_values_def
          split: if_splits option.splits)
next
  case (CreateLeaveType u t p)
  with assms show ?thesis
    using set_insert_subset [of u _ "leaveTypeStorage s"]
    by (fastforce simp: as_reply_snd createLeaveType_def Let_def quotas_nonzero_def sbt_values_def
          list_all_iff split: if_splits)
next
  case (CancelLeaveRequest x)
  with assms show ?thesis
    by (auto simp: as_reply_snd cancelLeaveRequest_def sbt_get_def)
qed (insert assms, simp_all add: as_reply_snd queries_state approveLeaveRequest_state accrueLeave_state)

lemma reachable_no_requests: "reachable s \<Longrightarrow> quotas_nonzero s \<and> leaveRequestStorage s = []"
proof -
  have "reachable_from init s \<Longrightarrow> quotas_nonzero s \<and> leaveRequestStorage s = []"
  proof (induction rule: reachable_from.induct)
    case start
    show ?case by (simp add: quotas_nonzero_def init_def sbt_values_def)
  next
    case (call s c)
    then show ?case using no_requests_step by blast
  qed
  then show "reachable s \<Longrightarrow> quotas_nonzero s \<and> leaveRequestStorage s = []"
    by (simp add: reachable_def)
qed

subsection \<open>A request for the leave type with quota 0\<close>

lemma ex_unpaidCreated_eq:
  "createLeaveRequest ''r3'' 5 ex_unpaidPayload ex_stores =
     (Ok \<lparr>lr_id = ''r3'', lr_employee_id = ''e1'', lr_leave_type_id = ''t3'',
          lr_start_date = 20, lr_end_date = 22, lr_status = ''Pending'',
          lr_reason = ''unpaid'', lr_created_at = 5\<rparr>, ex_unpaidCreated)"
  by (simp add: createLeaveRequest_def validateEmployee_def validateLeaveBalance_eq
        checkLeaveOverlap_def ex_stores_def sbt_get_def sbt_values_def ex_unpaidPayload_def
        ex_unpaid_def ex_request_def ex_other_def ex_unpaidCreated_def Let_def)

subsection \<open>Calls that never succeed\<close>

lemma accrueLeave_approved:
  assumes "sbt_get rid (leaveRequestStorage s) = Some r" and "lr_status r = ''Approved''"
      and "sbt_get (lr_employee_id r) (employeeStorage s) = Some e"
      and "sbt_get (lr_leave_type_id r) (leaveTypeStorage s) = Some lt"
  shows "accrueLeave rid s = (Trap ''TypeError: employee.leave_balances.get is not a function'', s)"
  using assms by (simp add: accrueLeave_def)

lemma accrueLeave_never_Ok: "fst (accrueLeave rid s) \<noteq> Ok m"
  by (simp add: accrueLeave_def split: option.splits)

lemma approveLeaveRequest_never_Ok: "fst (approveLeaveRequest rid s) \<noteq> Ok m"
  by (simp add: approveLeaveRequest_def get_prop_toPropertyKey split: option.splits sum.splits)

lemma approveLeaveRequest_quota:
  assumes "sbt_get rid (leaveRequestStorage s) = Some r" and "lr_status r \<noteq> ''Approved''"
      and "sbt_get (lr_employee_id r) (employeeStorage s) = Some e"
      and "sbt_get (lr_leave_type_id r) (leaveTypeStorage s) = Some lt"
      and "lt_quota lt \<noteq> 0"
  shows "approveLeaveRequest rid s =
           (Err (Error ''Insufficient leave balance for this leave type.''), s)"
    and "approveLeaveRequest0 rid s =
           (Err (Error (''Insufficient leave balance for this leave type. Available: 0, Required: '' @
                        show_nat64 (lt_quota lt))), s)"
proof -
  show "approveLeaveRequest rid s =
           (Err (Error ''Insufficient leave balance for this leave type.''), s)"
    using assms
    by (simp add: approveLeaveRequest_def validateEmployee_def validateLeaveBalance_eq)
  have "(0 :: nat64) < lt_quota lt" using assms(5) by (simp add: word_greater_zero_iff)
  moreover have "show_nat64 0 = ''0''" by (simp add: show_nat64_def dec.simps)
  ultimately show "approveLeaveRequest0 rid s =
           (Err (Error (''Insufficient leave balance for this leave type. Available: 0, Required: '' @
                        show_nat64 (lt_quota lt))), s)"
    using assms
    by (simp add: approveLeaveRequest0_def get_prop_toPropertyKey nullish_def)
qed

section \<open>The calls\<close>

text \<open>
  Claim C1 says that \<^verbatim>\<open>accrueLeave\<close>, for a stored request that is "Approved" and whose
  employee and leave type exist, deducts the quota from the balance a second time and
  sets the status to "Accrued". The code does not get there: it calls \<^verbatim>\<open>get\<close> on the
  balances object and throws. At the stores of the specification's example after the
  approval (annual balance 15, quota 5) the call ends with the \<^verbatim>\<open>TypeError\<close> and the
  stores are as before: the balance is still 15 and the status still "Approved".
  \<open>accrueLeave_approved\<close> is the same for every such request.
\<close>

theorem accrueLeave_throws:
  "sbt_get ''r1'' (leaveRequestStorage ex_approved) = Some (ex_request\<lparr>lr_status := ''Approved''\<rparr>) \<and>
   map (\<lambda>e. category_balance (e_leave_balances e) Annual) (sbt_values (employeeStorage ex_approved)) = [15] \<and>
   sbt_get ''t1'' (leaveTypeStorage ex_approved) = Some ex_annual \<and>
   lt_quota ex_annual = 5 \<and>
   accrueLeave ''r1'' ex_approved =
     (Trap ''TypeError: employee.leave_balances.get is not a function'', ex_approved)"
  by (simp add: accrueLeave_def ex_approved_def sbt_get_def sbt_values_def ex_request_def
        ex_annual_def ex_employee_def defaultBalances_def)

text \<open>
  Claim C2 says that \<^verbatim>\<open>approveLeaveRequest\<close>, for a stored request that is not
  "Approved" and whose employee has at least the quota in the category of the leave
  type, reduces that balance by the quota and sets the status to "Approved". The code
  reads the balance with the name of the leave type as the property key; the name is an
  object, no property has its key, and the balance compared with the quota is \<^verbatim>\<open>0n\<close>.
  In the second file, after the registration of the employee (annual balance 20) and of
  the leave type (quota 5) and the creation of the request, the approval answers
  \<^verbatim>\<open>Error\<close> with "Available: 0, Required: 5" and changes nothing; the main file
  answers \<^verbatim>\<open>Error\<close> on the same stores, and its \<^verbatim>\<open>createLeaveRequest\<close> already refuses
  the request of the example. \<open>approveLeaveRequest_quota\<close> is the same for every request
  whose leave type has a quota other than 0.
\<close>

theorem approveLeaveRequest_finds_no_balance:
  "snd (createLeaveRequest0 ''r1'' 3 ex_requestPayload
     (snd (createLeaveType ''t1'' 2 ex_annualPayload
        (snd (createEmployee0 ''e1'' 1 ex_employeePayload init))))) = ex_pending \<and>
   sbt_get ''r1'' (leaveRequestStorage ex_pending) = Some ex_request \<and>
   lr_status ex_request = ''Pending'' \<and>
   lt_quota ex_annual \<le> category_balance (e_leave_balances ex_employee) (lt_name ex_annual) \<and>
   approveLeaveRequest0 ''r1'' ex_pending =
     (Err (Error ''Insufficient leave balance for this leave type. Available: 0, Required: 5''),
      ex_pending) \<and>
   approveLeaveRequest ''r1'' ex_pending =
     (Err (Error ''Insufficient leave balance for this leave type.''), ex_pending) \<and>
   snd (createLeaveType ''t1'' 2 ex_annualPayload
        (snd (createEmployee ''e1'' 1 ex_employeePayload init))) = ex_registered \<and>
   createLeaveRequest ''r1'' 3 ex_requestPayload ex_registered =
     (Err (Error ''Insufficient leave balance for this leave type.''), ex_registered)"
proof -
  have mail: "rx_test emailRegex ''ada@example.com''"
    by (simp add: emailRegex_def not_space_at_def is_space_def)
  have phone: "rx_test phoneRegex ''+254712345678''"
    by (simp add: phoneRegex_def is_digit_def)
  have s1: "snd (createEmployee0 ''e1'' 1 ex_employeePayload init) =
              init\<lparr>employeeStorage := [(''e1'', ex_employee)]\<rparr>"
           "snd (createEmployee ''e1'' 1 ex_employeePayload init) =
              init\<lparr>employeeStorage := [(''e1'', ex_employee)]\<rparr>"
    using mail phone
    by (simp_all add: createEmployee0_def createEmployee_def ex_employeePayload_def init_def
          sbt_values_def ex_employee_def Let_def)
  have s2: "snd (createLeaveType ''t1'' 2 ex_annualPayload (init\<lparr>employeeStorage := [(''e1'', ex_employee)]\<rparr>)) =
              ex_registered"
    by (simp add: createLeaveType_def ex_annualPayload_def init_def ex_registered_def ex_annual_def
          Let_def)
  have s3: "snd (createLeaveRequest0 ''r1'' 3 ex_requestPayload ex_registered) = ex_pending"
    by (simp add: createLeaveRequest0_def ex_requestPayload_def ex_registered_def sbt_get_def
          ex_pending_def ex_request_def Let_def)
  have g: "sbt_get ''r1'' (leaveRequestStorage ex_pending) = Some ex_request"
    by (simp add: ex_pending_def sbt_get_def)
  have st: "lr_status ex_request = ''Pending''"
    by (simp add: ex_request_def)
  have bal: "lt_quota ex_annual \<le> category_balance (e_leave_balances ex_employee) (lt_name ex_annual)"
    by (simp add: ex_annual_def ex_employee_def defaultBalances_def)
  have five: "show_nat64 5 = ''5''" "show_nat64 0 = ''0''"
    by (simp_all add: show_nat64_def dec.simps)
  have a0: "approveLeaveRequest0 ''r1'' ex_pending =
     (Err (Error ''Insufficient leave balance for this leave type. Available: 0, Required: 5''),
      ex_pending)"
    using five
    by (simp add: approveLeaveRequest0_def get_prop_toPropertyKey nullish_def ex_pending_def
          sbt_get_def ex_request_def ex_annual_def)
  have a1: "approveLeaveRequest ''r1'' ex_pending =
     (Err (Error ''Insufficient leave balance for this leave type.''), ex_pending)"
    by (simp add: approveLeaveRequest_def validateEmployee_def validateLeaveBalance_eq
          ex_pending_def sbt_get_def ex_request_def ex_annual_def)
  have c1: "createLeaveRequest ''r1'' 3 ex_requestPayload ex_registered =
     (Err (Error ''Insufficient leave balance for this leave type.''), ex_registered)"
    by (simp add: createLeaveRequest_def validateEmployee_def validateLeaveBalance_eq
          ex_registered_def sbt_get_def ex_requestPayload_def ex_annual_def)
  from s1 s2 s3 g st bal a0 a1 c1 show ?thesis by simp
qed

text \<open>
  Claim C3. Whenever a call of the main file answers \<^verbatim>\<open>Err\<close> (with \<^verbatim>\<open>InvalidPayload\<close>,
  \<^verbatim>\<open>NotFound\<close> or \<^verbatim>\<open>Error\<close>), the three stores are as they were before the call; the
  same holds for the three calls of the second file that differ. In particular
  \<^verbatim>\<open>createLeaveRequest\<close> for an employee whose balance in the category of the leave
  type is below the quota answers \<^verbatim>\<open>Error\<close> and changes nothing.
\<close>

theorem failed_call_changes_nothing:
  "(\<forall>m. fst (step c s) = Err m \<longrightarrow> snd (step c s) = s) \<and>
   (\<forall>m. fst (createEmployee0 u t ep s) = Err m \<longrightarrow> snd (createEmployee0 u t ep s) = s) \<and>
   (\<forall>m. fst (createLeaveRequest0 u t p s) = Err m \<longrightarrow> snd (createLeaveRequest0 u t p s) = s) \<and>
   (\<forall>m. fst (approveLeaveRequest0 rid s) = Err m \<longrightarrow> snd (approveLeaveRequest0 rid s) = s) \<and>
   (\<forall>e lt. sbt_get (lrp_employee_id p) (employeeStorage s) = Some e \<longrightarrow>
            sbt_get (lrp_leave_type_id p) (leaveTypeStorage s) = Some lt \<longrightarrow>
            category_balance (e_leave_balances e) (lt_name lt) < lt_quota lt \<longrightarrow>
            createLeaveRequest u t p s =
              (Err (Error ''Insufficient leave balance for this leave type.''), s))"
proof (intro conjI allI impI)
  fix e lt
  assume "sbt_get (lrp_employee_id p) (employeeStorage s) = Some e"
     and "sbt_get (lrp_leave_type_id p) (leaveTypeStorage s) = Some lt"
     and "category_balance (e_leave_balances e) (lt_name lt) < lt_quota lt"
  then show "createLeaveRequest u t p s =
               (Err (Error ''Insufficient leave balance for this leave type.''), s)"
    using word_below_quota
    by (auto simp add: createLeaveRequest_def validateEmployee_def validateLeaveBalance_eq)
qed (simp_all add: step_Err createEmployee0_Err createLeaveRequest0_Err approveLeaveRequest0_Err)

theorem failed_call_changes_nothing_witness:
  "fst (step (ApproveLeaveRequest ''r1'') ex_pending) =
     Err (Error ''Insufficient leave balance for this leave type.'') \<and>
   snd (step (ApproveLeaveRequest ''r1'') ex_pending) = ex_pending \<and>
   sbt_get (lrp_employee_id (ex_requestPayload\<lparr>lrp_leave_type_id := ''t2''\<rparr>))
     (employeeStorage ex_stores) = Some ex_employee \<and>
   sbt_get (lrp_leave_type_id (ex_requestPayload\<lparr>lrp_leave_type_id := ''t2''\<rparr>))
     (leaveTypeStorage ex_stores) = Some ex_sick \<and>
   category_balance (e_leave_balances ex_employee) (lt_name ex_sick) < lt_quota ex_sick \<and>
   createLeaveRequest ''r3'' 5 (ex_requestPayload\<lparr>lrp_leave_type_id := ''t2''\<rparr>) ex_stores =
     (Err (Error ''Insufficient leave balance for this leave type.''), ex_stores)"
proof -
  have a: "fst (step (ApproveLeaveRequest ''r1'') ex_pending) =
             Err (Error ''Insufficient leave balance for this leave type.'')"
    by (simp add: approveLeaveRequest_def validateEmployee_def validateLeaveBalance_eq
          ex_pending_def sbt_get_def ex_request_def ex_annual_def)
  have e: "sbt_get (lrp_employee_id (ex_requestPayload\<lparr>lrp_leave_type_id := ''t2''\<rparr>))
             (employeeStorage ex_stores) = Some ex_employee"
    by (simp add: ex_stores_def sbt_get_def ex_requestPayload_def)
  have lt: "sbt_get (lrp_leave_type_id (ex_requestPayload\<lparr>lrp_leave_type_id := ''t2''\<rparr>))
              (leaveTypeStorage ex_stores) = Some ex_sick"
    by (simp add: ex_stores_def sbt_get_def)
  have b: "category_balance (e_leave_balances ex_employee) (lt_name ex_sick) < lt_quota ex_sick"
    by (simp add: ex_employee_def ex_sick_def defaultBalances_def)
  note inst = failed_call_changes_nothing
    [of "ApproveLeaveRequest ''r1''" ex_pending _ _ _ "ex_requestPayload\<lparr>lrp_leave_type_id := ''t2''\<rparr>"]
  from inst a have "snd (step (ApproveLeaveRequest ''r1'') ex_pending) = ex_pending"
    by blast
  moreover
  from failed_call_changes_nothing
    [of _ ex_stores "''r3''" 5 _ "ex_requestPayload\<lparr>lrp_leave_type_id := ''t2''\<rparr>"] e lt b
  have "createLeaveRequest ''r3'' 5 (ex_requestPayload\<lparr>lrp_leave_type_id := ''t2''\<rparr>) ex_stores =
          (Err (Error ''Insufficient leave balance for this leave type.''), ex_stores)"
    by blast
  ultimately show ?thesis using a e lt b by blast
qed

text \<open>
  Claim C4. When the employee of the payload is stored and the start date or the end
  date of the payload lies in the window (bounds included) of a stored request of the
  same employee whose status is not "Rejected", \<^verbatim>\<open>createLeaveRequest\<close> answers
  \<^verbatim>\<open>Error\<close> and the stores are as before. The second part is the same for a pair of
  creations: after a creation that succeeded, a second one for the same employee with
  its start or end date in the window of the first answers \<^verbatim>\<open>Error\<close> and stores nothing.
\<close>

theorem overlapping_request_rejected:
  "(\<forall>e r. sbt_get (lrp_employee_id p) (employeeStorage s) = Some e \<longrightarrow>
           r \<in> set (sbt_values (leaveRequestStorage s)) \<longrightarrow>
           lr_employee_id r = lrp_employee_id p \<longrightarrow>
           lr_status r \<noteq> ''Rejected'' \<longrightarrow>
           (lr_start_date r \<le> lrp_start_date p \<and> lrp_start_date p \<le> lr_end_date r) \<or>
           (lr_start_date r \<le> lrp_end_date p \<and> lrp_end_date p \<le> lr_end_date r) \<longrightarrow>
           (\<exists>m. createLeaveRequest u t p s = (Err (Error m), s))) \<and>
   (\<forall>r1. createLeaveRequest u1 t1 p1 s0 = (Ok r1, s) \<longrightarrow>
         lrp_employee_id p = lrp_employee_id p1 \<longrightarrow>
         (lrp_start_date p1 \<le> lrp_start_date p \<and> lrp_start_date p \<le> lrp_end_date p1) \<or>
         (lrp_start_date p1 \<le> lrp_end_date p \<and> lrp_end_date p \<le> lrp_end_date p1) \<longrightarrow>
         (\<exists>m. createLeaveRequest u t p s = (Err (Error m), s)))"
proof -
  have stored: "\<exists>m. createLeaveRequest u t p s = (Err (Error m), s)"
    if e: "sbt_get (lrp_employee_id p) (employeeStorage s) = Some e"
    and r: "r \<in> set (sbt_values (leaveRequestStorage s))"
           "lr_employee_id r = lrp_employee_id p" "lr_status r \<noteq> ''Rejected''"
           "(lr_start_date r \<le> lrp_start_date p \<and> lrp_start_date p \<le> lr_end_date r) \<or>
            (lr_start_date r \<le> lrp_end_date p \<and> lrp_end_date p \<le> lr_end_date r)"
    for e r
  proof -
    have "checkLeaveOverlap s (lrp_employee_id p) (lrp_start_date p) (lrp_end_date p)"
      using r by (auto simp: checkLeaveOverlap_def filter_empty_conv)
    then show ?thesis
      using e by (simp add: createLeaveRequest_def validateEmployee_def split: sum.splits)
  qed
  have pair: "\<exists>m. createLeaveRequest u t p s = (Err (Error m), s)"
    if c: "createLeaveRequest u1 t1 p1 s0 = (Ok r1, s)"
    and same: "lrp_employee_id p = lrp_employee_id p1"
    and w: "(lrp_start_date p1 \<le> lrp_start_date p \<and> lrp_start_date p \<le> lrp_end_date p1) \<or>
            (lrp_start_date p1 \<le> lrp_end_date p \<and> lrp_end_date p \<le> lrp_end_date p1)"
    for r1
  proof -
    from c obtain e where e: "sbt_get (lrp_employee_id p1) (employeeStorage s0) = Some e"
      by (auto simp: createLeaveRequest_def validateEmployee_def split: sum.splits option.splits)
    from c have r1: "r1 = \<lparr>lr_id = u1, lr_employee_id = lrp_employee_id p1,
                           lr_leave_type_id = lrp_leave_type_id p1,
                           lr_start_date = lrp_start_date p1, lr_end_date = lrp_end_date p1,
                           lr_status = ''Pending'', lr_reason = lrp_reason p1,
                           lr_created_at = t1\<rparr>"
      and s: "s = s0\<lparr>leaveRequestStorage := sbt_insert u1 r1 (leaveRequestStorage s0)\<rparr>"
      by (auto simp: createLeaveRequest_def Let_def split: sum.splits if_splits)
    have "r1 \<in> set (sbt_values (leaveRequestStorage s))"
      using sbt_in_set_insert [of u1 r1 "leaveRequestStorage s0"]
      by (force simp: s sbt_values_def)
    moreover have "sbt_get (lrp_employee_id p) (employeeStorage s) = Some e"
      using e same by (simp add: s)
    ultimately show ?thesis
      using stored [of e r1] same w by (simp add: r1)
  qed
  from stored pair show ?thesis by blast
qed

theorem overlapping_request_rejected_witness:
  "sbt_get (lrp_employee_id ex_overlapPayload) (employeeStorage ex_stores) = Some ex_employee \<and>
   ex_request \<in> set (sbt_values (leaveRequestStorage ex_stores)) \<and>
   lr_employee_id ex_request = lrp_employee_id ex_overlapPayload \<and>
   lr_status ex_request \<noteq> ''Rejected'' \<and>
   lr_start_date ex_request \<le> lrp_start_date ex_overlapPayload \<and>
   lrp_start_date ex_overlapPayload \<le> lr_end_date ex_request \<and>
   (\<exists>m. createLeaveRequest ''r4'' 6 ex_overlapPayload ex_stores = (Err (Error m), ex_stores)) \<and>
   fst (createLeaveRequest ''r3'' 5 ex_unpaidPayload ex_stores) \<noteq> Err (Error '''') \<and>
   lrp_start_date ex_unpaidPayload \<le> lrp_end_date (ex_unpaidPayload\<lparr>lrp_start_date := 15, lrp_end_date := 21\<rparr>) \<and>
   lrp_end_date (ex_unpaidPayload\<lparr>lrp_start_date := 15, lrp_end_date := 21\<rparr>) \<le> lrp_end_date ex_unpaidPayload \<and>
   createLeaveRequest ''r4'' 6 (ex_unpaidPayload\<lparr>lrp_start_date := 15, lrp_end_date := 21\<rparr>) ex_unpaidCreated =
     (Err (Error ''Leave dates overlap with an existing request.''), ex_unpaidCreated)"
proof -
  have e: "sbt_get (lrp_employee_id ex_overlapPayload) (employeeStorage ex_stores) = Some ex_employee"
    by (simp add: ex_stores_def sbt_get_def ex_overlapPayload_def)
  have r: "ex_request \<in> set (sbt_values (leaveRequestStorage ex_stores))"
    by (simp add: ex_stores_def sbt_values_def)
  have same: "lr_employee_id ex_request = lrp_employee_id ex_overlapPayload"
    by (simp add: ex_request_def ex_overlapPayload_def)
  have st: "lr_status ex_request \<noteq> ''Rejected''"
    by (simp add: ex_request_def)
  have w: "lr_start_date ex_request \<le> lrp_start_date ex_overlapPayload"
          "lrp_start_date ex_overlapPayload \<le> lr_end_date ex_request"
    by (simp_all add: ex_request_def ex_overlapPayload_def)
  from overlapping_request_rejected [of ex_overlapPayload ex_stores "''r4''" 6] e r same st w
  have first: "\<exists>m. createLeaveRequest ''r4'' 6 ex_overlapPayload ex_stores = (Err (Error m), ex_stores)"
    by blast
  have w2: "lrp_start_date ex_unpaidPayload \<le>
              lrp_end_date (ex_unpaidPayload\<lparr>lrp_start_date := 15, lrp_end_date := 21\<rparr>)"
           "lrp_end_date (ex_unpaidPayload\<lparr>lrp_start_date := 15, lrp_end_date := 21\<rparr>) \<le>
              lrp_end_date ex_unpaidPayload"
    by (simp_all add: ex_unpaidPayload_def)
  have same2: "lrp_employee_id (ex_unpaidPayload\<lparr>lrp_start_date := 15, lrp_end_date := 21\<rparr>) =
               lrp_employee_id ex_unpaidPayload"
    by simp
  from overlapping_request_rejected
         [of "ex_unpaidPayload\<lparr>lrp_start_date := 15, lrp_end_date := 21\<rparr>" ex_unpaidCreated
             "''r4''" 6 "''r3''" 5 ex_unpaidPayload ex_stores]
       ex_unpaidCreated_eq same2 w2
  have "\<exists>m. createLeaveRequest ''r4'' 6 (ex_unpaidPayload\<lparr>lrp_start_date := 15, lrp_end_date := 21\<rparr>)
              ex_unpaidCreated = (Err (Error m), ex_unpaidCreated)"
    by blast
  moreover
  have "fst (createLeaveRequest ''r4'' 6 (ex_unpaidPayload\<lparr>lrp_start_date := 15, lrp_end_date := 21\<rparr>)
              ex_unpaidCreated) = Err (Error ''Leave dates overlap with an existing request.'')"
    by (simp add: createLeaveRequest_def validateEmployee_def validateLeaveBalance_eq
          checkLeaveOverlap_def ex_unpaidCreated_def ex_stores_def sbt_get_def sbt_values_def
          ex_unpaidPayload_def ex_unpaid_def ex_request_def ex_other_def)
  ultimately
  have second: "createLeaveRequest ''r4'' 6 (ex_unpaidPayload\<lparr>lrp_start_date := 15, lrp_end_date := 21\<rparr>)
                  ex_unpaidCreated =
                (Err (Error ''Leave dates overlap with an existing request.''), ex_unpaidCreated)"
    by auto
  have ok: "fst (createLeaveRequest ''r3'' 5 ex_unpaidPayload ex_stores) \<noteq> Err (Error '''')"
    by (simp add: ex_unpaidCreated_eq)
  from e r same st w first ok w2 second show ?thesis by blast
qed

text \<open>
  Claim C5. For a payload whose start date is after its end date: if the dates overlap
  a stored request of the same (stored) employee the call answers \<^verbatim>\<open>Error\<close>; the call
  answers \<^verbatim>\<open>InvalidPayload\<close> only when there is no such overlap; and once the employee
  and balance checks have passed, the answer is the overlap \<^verbatim>\<open>Error\<close> when there is an
  overlap and the date-order \<^verbatim>\<open>InvalidPayload\<close> otherwise. The call never succeeds and
  never changes the stores.
\<close>

theorem date_order_checked_after_overlap:
  assumes "lrp_start_date p > lrp_end_date p"
  shows "(\<forall>e. sbt_get (lrp_employee_id p) (employeeStorage s) = Some e \<longrightarrow>
              checkLeaveOverlap s (lrp_employee_id p) (lrp_start_date p) (lrp_end_date p) \<longrightarrow>
              (\<exists>m. createLeaveRequest u t p s = (Err (Error m), s))) \<and>
         (\<forall>m. fst (createLeaveRequest u t p s) = Err (InvalidPayload m) \<longrightarrow>
              \<not> checkLeaveOverlap s (lrp_employee_id p) (lrp_start_date p) (lrp_end_date p)) \<and>
         (\<forall>e lt. validateEmployee s (lrp_employee_id p) = Inr e \<longrightarrow>
              validateLeaveBalance s e (lrp_leave_type_id p) = Inr lt \<longrightarrow>
              createLeaveRequest u t p s =
                (if checkLeaveOverlap s (lrp_employee_id p) (lrp_start_date p) (lrp_end_date p)
                 then (Err (Error ''Leave dates overlap with an existing request.''), s)
                 else (Err (InvalidPayload ''Start date cannot be later than end date.''), s))) \<and>
         (\<forall>r. fst (createLeaveRequest u t p s) \<noteq> Ok r) \<and>
         snd (createLeaveRequest u t p s) = s"
  using assms
  by (auto simp: createLeaveRequest_def validateEmployee_def Let_def
           split: sum.splits option.splits)

theorem date_order_checked_after_overlap_witness:
  "lrp_end_date ex_swappedPayload < lrp_start_date ex_swappedPayload \<and>
   validateEmployee ex_stores (lrp_employee_id ex_swappedPayload) = Inr ex_employee \<and>
   validateLeaveBalance ex_stores ex_employee (lrp_leave_type_id ex_swappedPayload) = Inr ex_unpaid \<and>
   checkLeaveOverlap ex_stores (lrp_employee_id ex_swappedPayload)
     (lrp_start_date ex_swappedPayload) (lrp_end_date ex_swappedPayload) \<and>
   createLeaveRequest ''r4'' 6 ex_swappedPayload ex_stores =
     (Err (Error ''Leave dates overlap with an existing request.''), ex_stores) \<and>
   lrp_end_date (ex_swappedPayload\<lparr>lrp_start_date := 9, lrp_end_date := 7\<rparr>) <
     lrp_start_date (ex_swappedPayload\<lparr>lrp_start_date := 9, lrp_end_date := 7\<rparr>) \<and>
   \<not> checkLeaveOverlap ex_stores (lrp_employee_id ex_swappedPayload) 9 7 \<and>
   createLeaveRequest ''r4'' 6 (ex_swappedPayload\<lparr>lrp_start_date := 9, lrp_end_date := 7\<rparr>) ex_stores =
     (Err (InvalidPayload ''Start date cannot be later than end date.''), ex_stores)"
proof -
  let ?q = "ex_swappedPayload\<lparr>lrp_start_date := 9, lrp_end_date := 7\<rparr>"
  have sw: "lrp_end_date ex_swappedPayload < lrp_start_date ex_swappedPayload"
    by (simp add: ex_swappedPayload_def)
  have sw2: "lrp_end_date ?q < lrp_start_date ?q"
    by simp
  have e: "validateEmployee ex_stores (lrp_employee_id ex_swappedPayload) = Inr ex_employee"
    by (simp add: validateEmployee_def ex_stores_def sbt_get_def ex_swappedPayload_def)
  have b: "validateLeaveBalance ex_stores ex_employee (lrp_leave_type_id ex_swappedPayload) =
             Inr ex_unpaid"
    by (simp add: validateLeaveBalance_eq ex_stores_def sbt_get_def ex_swappedPayload_def
          ex_unpaid_def)
  have ov: "checkLeaveOverlap ex_stores (lrp_employee_id ex_swappedPayload)
              (lrp_start_date ex_swappedPayload) (lrp_end_date ex_swappedPayload)"
    by (simp add: checkLeaveOverlap_def ex_stores_def sbt_values_def ex_swappedPayload_def
          ex_request_def ex_other_def)
  have nov: "\<not> checkLeaveOverlap ex_stores (lrp_employee_id ex_swappedPayload) 9 7"
    by (simp add: checkLeaveOverlap_def ex_stores_def sbt_values_def ex_swappedPayload_def
          ex_request_def ex_other_def)
  from date_order_checked_after_overlap [OF sw, of ex_stores "''r4''" 6] e b ov
  have first: "createLeaveRequest ''r4'' 6 ex_swappedPayload ex_stores =
                 (Err (Error ''Leave dates overlap with an existing request.''), ex_stores)"
    by simp
  from date_order_checked_after_overlap [OF sw2, of ex_stores "''r4''" 6] e b nov
  have second: "createLeaveRequest ''r4'' 6 ?q ex_stores =
                  (Err (InvalidPayload ''Start date cannot be later than end date.''), ex_stores)"
    by simp
  from sw sw2 e b ov nov first second show ?thesis by blast
qed

text \<open>
  Claim C6. For a stored employee, \<^verbatim>\<open>deleteEmployee\<close> answers \<^verbatim>\<open>Error\<close> and changes
  nothing when a request of that employee is "Pending"; otherwise it removes the
  employee and every request of that employee, whatever its status, and
  \<^verbatim>\<open>getEmployeeLeaveRequests\<close> for that employee then answers \<^verbatim>\<open>NotFound\<close>.
  The hypothesis \<open>keyed\<close> holds in every reachable state (\<open>reachable_wf_state\<close>).
\<close>

theorem deleteEmployee_cascade:
  assumes "keyed lr_id (leaveRequestStorage s)"
      and "sbt_get eid (employeeStorage s) = Some e"
  shows "((\<exists>r \<in> set (sbt_values (leaveRequestStorage s)).
             lr_employee_id r = eid \<and> lr_status r = ''Pending'') \<longrightarrow>
            deleteEmployee eid s =
              (Err (Error ''Cannot delete employee with pending leave requests.''), s)) \<and>
         (\<not> (\<exists>r \<in> set (sbt_values (leaveRequestStorage s)).
                lr_employee_id r = eid \<and> lr_status r = ''Pending'') \<longrightarrow>
            deleteEmployee eid s =
              (Ok (Success ''Employee and associated leave requests deleted.''),
               s\<lparr>employeeStorage := sbt_remove eid (employeeStorage s),
                 leaveRequestStorage :=
                   filter (\<lambda>kv. lr_employee_id (snd kv) \<noteq> eid) (leaveRequestStorage s)\<rparr>) \<and>
            sbt_get eid (employeeStorage (snd (deleteEmployee eid s))) = None \<and>
            fst (getEmployeeLeaveRequests eid (snd (deleteEmployee eid s))) =
              Err (NotFound (''No leave requests found for employee with id '' @ eid)))"
proof (intro conjI impI)
  assume "\<exists>r \<in> set (sbt_values (leaveRequestStorage s)).
            lr_employee_id r = eid \<and> lr_status r = ''Pending''"
  then show "deleteEmployee eid s =
               (Err (Error ''Cannot delete employee with pending leave requests.''), s)"
    using assms(2) by (simp add: deleteEmployee_def list_ex_iff)
next
  assume "\<not> (\<exists>r \<in> set (sbt_values (leaveRequestStorage s)).
                lr_employee_id r = eid \<and> lr_status r = ''Pending'')"
  then show d: "deleteEmployee eid s =
              (Ok (Success ''Employee and associated leave requests deleted.''),
               s\<lparr>employeeStorage := sbt_remove eid (employeeStorage s),
                 leaveRequestStorage :=
                   filter (\<lambda>kv. lr_employee_id (snd kv) \<noteq> eid) (leaveRequestStorage s)\<rparr>)"
    using assms(2) by (simp add: deleteEmployee_def list_ex_iff delete_requests [OF assms(1)])
  show "sbt_get eid (employeeStorage (snd (deleteEmployee eid s))) = None"
    by (simp add: d sbt_get_remove)
  have "filter (\<lambda>req. lr_employee_id req = eid)
          (sbt_values (filter (\<lambda>kv. lr_employee_id (snd kv) \<noteq> eid) (leaveRequestStorage s))) = []"
    by (auto simp: sbt_values_def filter_empty_conv)
  then show "fst (getEmployeeLeaveRequests eid (snd (deleteEmployee eid s))) =
               Err (NotFound (''No leave requests found for employee with id '' @ eid))"
    by (simp add: d getEmployeeLeaveRequests_def)
qed

theorem deleteEmployee_cascade_witness:
  "keyed lr_id (leaveRequestStorage ex_pending) \<and>
   sbt_get ''e1'' (employeeStorage ex_pending) = Some ex_employee \<and>
   (\<exists>r \<in> set (sbt_values (leaveRequestStorage ex_pending)).
      lr_employee_id r = ''e1'' \<and> lr_status r = ''Pending'') \<and>
   deleteEmployee ''e1'' ex_pending =
     (Err (Error ''Cannot delete employee with pending leave requests.''), ex_pending) \<and>
   keyed lr_id (leaveRequestStorage ex_approved) \<and>
   \<not> (\<exists>r \<in> set (sbt_values (leaveRequestStorage ex_approved)).
      lr_employee_id r = ''e1'' \<and> lr_status r = ''Pending'') \<and>
   leaveRequestStorage (snd (deleteEmployee ''e1'' ex_approved)) = [(''r2'', ex_other)] \<and>
   employeeStorage (snd (deleteEmployee ''e1'' ex_approved)) = [] \<and>
   fst (getEmployeeLeaveRequests ''e1'' (snd (deleteEmployee ''e1'' ex_approved))) =
     Err (NotFound ''No leave requests found for employee with id e1'')"
proof -
  have k1: "keyed lr_id (leaveRequestStorage ex_pending)"
    by (simp add: keyed_def ex_pending_def ex_request_def)
  have e1: "sbt_get ''e1'' (employeeStorage ex_pending) = Some ex_employee"
    by (simp add: ex_pending_def sbt_get_def)
  have p1: "\<exists>r \<in> set (sbt_values (leaveRequestStorage ex_pending)).
              lr_employee_id r = ''e1'' \<and> lr_status r = ''Pending''"
    by (simp add: ex_pending_def sbt_values_def ex_request_def)
  have k2: "keyed lr_id (leaveRequestStorage ex_approved)"
    by (simp add: keyed_def ex_approved_def ex_request_def ex_other_def)
  have e2: "sbt_get ''e1'' (employeeStorage ex_approved) =
              Some (ex_employee\<lparr>e_leave_balances := defaultBalances\<lparr>bal_Annual := 15\<rparr>\<rparr>)"
    by (simp add: ex_approved_def sbt_get_def)
  have p2: "\<not> (\<exists>r \<in> set (sbt_values (leaveRequestStorage ex_approved)).
                 lr_employee_id r = ''e1'' \<and> lr_status r = ''Pending'')"
    by (simp add: ex_approved_def sbt_values_def ex_request_def ex_other_def)
  from deleteEmployee_cascade [OF k1 e1] p1
  have blocked: "deleteEmployee ''e1'' ex_pending =
                   (Err (Error ''Cannot delete employee with pending leave requests.''), ex_pending)"
    by blast
  from deleteEmployee_cascade [OF k2 e2] p2
  have d: "deleteEmployee ''e1'' ex_approved =
             (Ok (Success ''Employee and associated leave requests deleted.''),
              ex_approved\<lparr>employeeStorage := sbt_remove ''e1'' (employeeStorage ex_approved),
                leaveRequestStorage :=
                  filter (\<lambda>kv. lr_employee_id (snd kv) \<noteq> ''e1'') (leaveRequestStorage ex_approved)\<rparr>)"
   and nf: "fst (getEmployeeLeaveRequests ''e1'' (snd (deleteEmployee ''e1'' ex_approved))) =
              Err (NotFound (''No leave requests found for employee with id '' @ ''e1''))"
    by blast+
  have rest: "leaveRequestStorage (snd (deleteEmployee ''e1'' ex_approved)) = [(''r2'', ex_other)]"
             "employeeStorage (snd (deleteEmployee ''e1'' ex_approved)) = []"
    unfolding d
    by (simp_all add: ex_approved_def sbt_remove_def ex_request_def ex_other_def)
  from nf have nf': "fst (getEmployeeLeaveRequests ''e1'' (snd (deleteEmployee ''e1'' ex_approved))) =
              Err (NotFound ''No leave requests found for employee with id e1'')"
    by simp
  from k1 e1 p1 blocked k2 p2 rest nf' show ?thesis
    by blast
qed

text \<open>
  Claim C7. For a stored request whose status is not "Approved", \<^verbatim>\<open>cancelLeaveRequest\<close>
  succeeds and removes the record: no record is left under its key (with the status
  "Rejected" or any other), and no listing of \<^verbatim>\<open>getEmployeeLeaveRequests\<close> contains
  it afterwards. For a stored request whose status is "Approved" the call answers
  \<^verbatim>\<open>Error\<close>, the stores are unchanged, and the request is still stored and listed.
  The hypothesis \<open>keyed\<close> holds in every reachable state (\<open>reachable_wf_state\<close>).
\<close>

theorem cancelLeaveRequest_removes:
  assumes "keyed lr_id (leaveRequestStorage s)"
      and "sbt_get rid (leaveRequestStorage s) = Some r"
  shows "(lr_status r \<noteq> ''Approved'' \<longrightarrow>
            cancelLeaveRequest rid s =
              (Ok (Success ''Leave request canceled successfully.''),
               s\<lparr>leaveRequestStorage := sbt_remove rid (leaveRequestStorage s)\<rparr>) \<and>
            sbt_get rid (leaveRequestStorage (snd (cancelLeaveRequest rid s))) = None \<and>
            (\<forall>e rs. fst (getEmployeeLeaveRequests e (snd (cancelLeaveRequest rid s))) = Ok rs \<longrightarrow>
               r \<notin> set rs \<and> (\<forall>x \<in> set rs. lr_id x \<noteq> rid))) \<and>
         (lr_status r = ''Approved'' \<longrightarrow>
            cancelLeaveRequest rid s = (Err (Error ''Cannot cancel an approved leave request.''), s) \<and>
            sbt_get rid (leaveRequestStorage (snd (cancelLeaveRequest rid s))) = Some r \<and>
            (\<exists>rs. fst (getEmployeeLeaveRequests (lr_employee_id r) (snd (cancelLeaveRequest rid s))) = Ok rs \<and>
                  r \<in> set rs))"
proof -
  have mem: "(rid, r) \<in> set (leaveRequestStorage s)"
    using assms(2) by (rule get_in_set)
  have rid: "lr_id r = rid"
    using assms(1) mem by (rule keyed_id)
  have gone: "\<And>x. x \<in> set (sbt_values (sbt_remove rid (leaveRequestStorage s))) \<Longrightarrow> lr_id x \<noteq> rid"
  proof -
    fix x assume "x \<in> set (sbt_values (sbt_remove rid (leaveRequestStorage s)))"
    then obtain k where k: "(k, x) \<in> set (leaveRequestStorage s)" "k \<noteq> rid"
      by (auto simp: sbt_values_def sbt_remove_def)
    with assms(1) have "lr_id x = k" using keyed_id by fastforce
    with k show "lr_id x \<noteq> rid" by simp
  qed
  have listed: "r \<in> set (filter (\<lambda>req. lr_employee_id req = lr_employee_id r)
                            (sbt_values (leaveRequestStorage s)))"
    using mem by (force simp: sbt_values_def)
  show ?thesis
  proof (intro conjI impI)
    assume "lr_status r \<noteq> ''Approved''"
    then show c: "cancelLeaveRequest rid s =
              (Ok (Success ''Leave request canceled successfully.''),
               s\<lparr>leaveRequestStorage := sbt_remove rid (leaveRequestStorage s)\<rparr>)"
      using assms(2) by (simp add: cancelLeaveRequest_def)
    show "sbt_get rid (leaveRequestStorage (snd (cancelLeaveRequest rid s))) = None"
      by (simp add: c sbt_get_remove)
    show "\<forall>e rs. fst (getEmployeeLeaveRequests e (snd (cancelLeaveRequest rid s))) = Ok rs \<longrightarrow>
               r \<notin> set rs \<and> (\<forall>x \<in> set rs. lr_id x \<noteq> rid)"
      using gone rid
      by (auto simp: c getEmployeeLeaveRequests_def Let_def split: if_splits)
  next
    assume "lr_status r = ''Approved''"
    then show c: "cancelLeaveRequest rid s =
                    (Err (Error ''Cannot cancel an approved leave request.''), s)"
      using assms(2) by (simp add: cancelLeaveRequest_def)
    show "sbt_get rid (leaveRequestStorage (snd (cancelLeaveRequest rid s))) = Some r"
      by (simp add: c assms(2))
    show "\<exists>rs. fst (getEmployeeLeaveRequests (lr_employee_id r) (snd (cancelLeaveRequest rid s))) = Ok rs \<and>
                  r \<in> set rs"
    proof -
      from listed have "filter (\<lambda>req. lr_employee_id req = lr_employee_id r)
                          (sbt_values (leaveRequestStorage s)) \<noteq> []"
        by (metis empty_iff list.set(1))
      with listed show ?thesis
        by (simp add: c getEmployeeLeaveRequests_def Let_def)
    qed
  qed
qed

theorem cancelLeaveRequest_removes_witness:
  "keyed lr_id (leaveRequestStorage ex_approved) \<and>
   sbt_get ''r2'' (leaveRequestStorage ex_approved) = Some ex_other \<and>
   lr_status ex_other \<noteq> ''Approved'' \<and>
   sbt_get ''r2'' (leaveRequestStorage (snd (cancelLeaveRequest ''r2'' ex_approved))) = None \<and>
   fst (getEmployeeLeaveRequests ''e1'' (snd (cancelLeaveRequest ''r2'' ex_approved))) =
     Ok [ex_request\<lparr>lr_status := ''Approved''\<rparr>] \<and>
   ex_other \<notin> set [ex_request\<lparr>lr_status := ''Approved''\<rparr>] \<and>
   sbt_get ''r1'' (leaveRequestStorage ex_approved) = Some (ex_request\<lparr>lr_status := ''Approved''\<rparr>) \<and>
   lr_status (ex_request\<lparr>lr_status := ''Approved''\<rparr>) = ''Approved'' \<and>
   cancelLeaveRequest ''r1'' ex_approved =
     (Err (Error ''Cannot cancel an approved leave request.''), ex_approved)"
proof -
  have k: "keyed lr_id (leaveRequestStorage ex_approved)"
    by (simp add: keyed_def ex_approved_def ex_request_def ex_other_def)
  have g2: "sbt_get ''r2'' (leaveRequestStorage ex_approved) = Some ex_other"
    by (simp add: ex_approved_def sbt_get_def)
  have g1: "sbt_get ''r1'' (leaveRequestStorage ex_approved) =
              Some (ex_request\<lparr>lr_status := ''Approved''\<rparr>)"
    by (simp add: ex_approved_def sbt_get_def)
  have st2: "lr_status ex_other \<noteq> ''Approved''"
    by (simp add: ex_other_def)
  have st1: "lr_status (ex_request\<lparr>lr_status := ''Approved''\<rparr>) = ''Approved''"
    by simp
  note pending = cancelLeaveRequest_removes [OF k g2]
  note approved = cancelLeaveRequest_removes [OF k g1]
  from pending st2
  have c: "cancelLeaveRequest ''r2'' ex_approved =
             (Ok (Success ''Leave request canceled successfully.''),
              ex_approved\<lparr>leaveRequestStorage := sbt_remove ''r2'' (leaveRequestStorage ex_approved)\<rparr>)"
    by blast
  have listing: "fst (getEmployeeLeaveRequests ''e1'' (snd (cancelLeaveRequest ''r2'' ex_approved))) =
                   Ok [ex_request\<lparr>lr_status := ''Approved''\<rparr>]"
    unfolding c
    by (simp add: getEmployeeLeaveRequests_def sbt_remove_def sbt_values_def ex_approved_def
          ex_request_def ex_other_def)
  from pending st2 listing
  have absent: "ex_other \<notin> set [ex_request\<lparr>lr_status := ''Approved''\<rparr>]"
    by blast
  from pending st2
  have gone: "sbt_get ''r2'' (leaveRequestStorage (snd (cancelLeaveRequest ''r2'' ex_approved))) = None"
    by blast
  from approved st1
  have kept: "cancelLeaveRequest ''r1'' ex_approved =
                (Err (Error ''Cannot cancel an approved leave request.''), ex_approved)"
    by blast
  from k g2 st2 gone listing absent g1 st1 kept show ?thesis
    by blast
qed

text \<open>
  Claim C8. In every state reachable from the empty stores no stored request has the
  status "Rejected", and every stored status is "Pending", "Approved" or "Accrued";
  the same is kept by every sequence of calls from any stores of which it holds. A
  request is created with the status "Pending".
\<close>

theorem no_rejected_status:
  "(reachable s \<longrightarrow> no_rejected s \<and> statuses_ok s) \<and>
   (statuses_ok s0 \<longrightarrow> reachable_from s0 s \<longrightarrow> no_rejected s \<and> statuses_ok s) \<and>
   (\<forall>r s'. createLeaveRequest u t p s = (Ok r, s') \<longrightarrow>
       lr_status r = ''Pending'' \<and> sbt_get u (leaveRequestStorage s') = Some r)"
proof (intro conjI impI allI)
  assume "reachable s"
  then show "statuses_ok s"
    using statuses_ok_reachable_from [of init s] statuses_ok_init by (simp add: reachable_def)
  then show "no_rejected s" by (rule statuses_ok_no_rejected)
next
  assume "statuses_ok s0" "reachable_from s0 s"
  then show "statuses_ok s" using statuses_ok_reachable_from by blast
  then show "no_rejected s" by (rule statuses_ok_no_rejected)
next
  fix r s' assume c: "createLeaveRequest u t p s = (Ok r, s')"
  then show "lr_status r = ''Pending''"
    by (auto simp: createLeaveRequest_def Let_def split: sum.splits if_splits)
  from c show "sbt_get u (leaveRequestStorage s') = Some r"
    by (auto simp: createLeaveRequest_def Let_def sbt_get_insert split: sum.splits if_splits)
qed

theorem no_rejected_status_witness:
  "reachable (snd (step (CreateEmployee ''e1'' 1 ex_employeePayload) init)) \<and>
   no_rejected (snd (step (CreateEmployee ''e1'' 1 ex_employeePayload) init)) \<and>
   statuses_ok ex_approved \<and>
   reachable_from ex_approved (snd (step (CancelLeaveRequest ''r2'') ex_approved)) \<and>
   sbt_values (leaveRequestStorage (snd (step (CancelLeaveRequest ''r2'') ex_approved))) =
     [ex_request\<lparr>lr_status := ''Approved''\<rparr>] \<and>
   no_rejected (snd (step (CancelLeaveRequest ''r2'') ex_approved)) \<and>
   statuses_ok (snd (step (CancelLeaveRequest ''r2'') ex_approved)) \<and>
   createLeaveRequest ''r3'' 5 ex_unpaidPayload ex_stores =
     (Ok \<lparr>lr_id = ''r3'', lr_employee_id = ''e1'', lr_leave_type_id = ''t3'',
          lr_start_date = 20, lr_end_date = 22, lr_status = ''Pending'',
          lr_reason = ''unpaid'', lr_created_at = 5\<rparr>, ex_unpaidCreated) \<and>
   sbt_get ''r3'' (leaveRequestStorage ex_unpaidCreated) =
     Some \<lparr>lr_id = ''r3'', lr_employee_id = ''e1'', lr_leave_type_id = ''t3'',
          lr_start_date = 20, lr_end_date = 22, lr_status = ''Pending'',
          lr_reason = ''unpaid'', lr_created_at = 5\<rparr>"
proof -
  have r1: "reachable (snd (step (CreateEmployee ''e1'' 1 ex_employeePayload) init))"
    unfolding reachable_def by (intro reachable_from.intros)
  have ok0: "statuses_ok ex_approved"
    by (simp add: statuses_ok_def ex_approved_def sbt_values_def ex_request_def ex_other_def)
  have r2: "reachable_from ex_approved (snd (step (CancelLeaveRequest ''r2'') ex_approved))"
    by (intro reachable_from.intros)
  have vals: "sbt_values (leaveRequestStorage (snd (step (CancelLeaveRequest ''r2'') ex_approved))) =
                [ex_request\<lparr>lr_status := ''Approved''\<rparr>]"
    by (simp add: cancelLeaveRequest_def ex_approved_def sbt_get_def sbt_remove_def sbt_values_def
          ex_other_def)
  note a = no_rejected_status [of "snd (step (CreateEmployee ''e1'' 1 ex_employeePayload) init)"]
  note b = no_rejected_status [of "snd (step (CancelLeaveRequest ''r2'') ex_approved)" ex_approved]
  note c = no_rejected_status [of ex_stores _ "''r3''" 5 ex_unpaidPayload]
  from a r1 have n1: "no_rejected (snd (step (CreateEmployee ''e1'' 1 ex_employeePayload) init))"
    by blast
  from b ok0 r2 have n2: "no_rejected (snd (step (CancelLeaveRequest ''r2'') ex_approved))"
                         "statuses_ok (snd (step (CancelLeaveRequest ''r2'') ex_approved))"
    by blast+
  from c ex_unpaidCreated_eq
  have g: "sbt_get ''r3'' (leaveRequestStorage ex_unpaidCreated) =
     Some \<lparr>lr_id = ''r3'', lr_employee_id = ''e1'', lr_leave_type_id = ''t3'',
          lr_start_date = 20, lr_end_date = 22, lr_status = ''Pending'',
          lr_reason = ''unpaid'', lr_created_at = 5\<rparr>"
    by blast
  from r1 n1 ok0 r2 vals n2 ex_unpaidCreated_eq g show ?thesis by blast
qed

text \<open>
  Claim C9. \<^verbatim>\<open>createEmployee\<close> answers \<^verbatim>\<open>InvalidPayload\<close> and leaves the stores as they
  were when the email is that of a stored employee, or does not match the email
  expression, or the phone number does not match the phone expression, whatever the
  other fields, the identifier and the time are. Both files.
\<close>

theorem createEmployee_rejects:
  assumes "(\<exists>emp \<in> set (sbt_values (employeeStorage s)). e_email emp = ep_email p) \<or>
           \<not> rx_test emailRegex (ep_email p) \<or>
           \<not> rx_test phoneRegex (ep_phone_number p)"
  shows "(\<exists>m. createEmployee u t p s = (Err (InvalidPayload m), s)) \<and>
         (\<exists>m. createEmployee0 u t p s = (Err (InvalidPayload m), s))"
  using assms by (auto simp: createEmployee_def createEmployee0_def list_ex_iff)

theorem createEmployee_rejects_witness:
  "(\<exists>emp \<in> set (sbt_values (employeeStorage ex_pending)).
       e_email emp = ep_email ex_employeePayload) \<and>
   rx_test emailRegex (ep_email ex_employeePayload) \<and>
   rx_test phoneRegex (ep_phone_number ex_employeePayload) \<and>
   (\<exists>m. createEmployee ''e9'' 7 ex_employeePayload ex_pending =
          (Err (InvalidPayload m), ex_pending)) \<and>
   \<not> rx_test emailRegex (ep_email (ex_employeePayload\<lparr>ep_email := ''ada.example.com''\<rparr>)) \<and>
   (\<exists>m. createEmployee0 ''e9'' 7 (ex_employeePayload\<lparr>ep_email := ''ada.example.com''\<rparr>) init =
          (Err (InvalidPayload m), init)) \<and>
   \<not> rx_test phoneRegex (ep_phone_number (ex_employeePayload\<lparr>ep_phone_number := ''0712345678''\<rparr>)) \<and>
   (\<exists>m. createEmployee ''e9'' 7 (ex_employeePayload\<lparr>ep_phone_number := ''0712345678''\<rparr>) init =
          (Err (InvalidPayload m), init))"
proof -
  have dup: "\<exists>emp \<in> set (sbt_values (employeeStorage ex_pending)).
               e_email emp = ep_email ex_employeePayload"
    by (simp add: ex_pending_def sbt_values_def ex_employee_def ex_employeePayload_def)
  have ok: "rx_test emailRegex (ep_email ex_employeePayload)"
           "rx_test phoneRegex (ep_phone_number ex_employeePayload)"
    by (simp_all add: ex_employeePayload_def emailRegex_def phoneRegex_def not_space_at_def
          is_space_def is_digit_def)
  have mail: "\<not> rx_test emailRegex (ep_email (ex_employeePayload\<lparr>ep_email := ''ada.example.com''\<rparr>))"
    by (simp add: emailRegex_def not_space_at_def is_space_def)
  have phone: "\<not> rx_test phoneRegex
                  (ep_phone_number (ex_employeePayload\<lparr>ep_phone_number := ''0712345678''\<rparr>))"
    by (simp add: phoneRegex_def is_digit_def)
  show ?thesis
    using dup ok mail phone
      createEmployee_rejects [of ex_pending ex_employeePayload "''e9''" 7]
      createEmployee_rejects [of init "ex_employeePayload\<lparr>ep_email := ''ada.example.com''\<rparr>" "''e9''" 7]
      createEmployee_rejects [of init "ex_employeePayload\<lparr>ep_phone_number := ''0712345678''\<rparr>" "''e9''" 7]
    by blast
qed

text \<open>
  Claim C10. \<^verbatim>\<open>cancelLeaveRequest\<close> leaves the employee store and the leave-type store
  as they were, and every leave request under another key as it was; when it succeeds,
  the request store is the old one without the entries of the given key.
\<close>

theorem cancelLeaveRequest_frame:
  "employeeStorage (snd (cancelLeaveRequest rid s)) = employeeStorage s \<and>
   leaveTypeStorage (snd (cancelLeaveRequest rid s)) = leaveTypeStorage s \<and>
   (\<forall>k. k \<noteq> rid \<longrightarrow>
      sbt_get k (leaveRequestStorage (snd (cancelLeaveRequest rid s))) =
      sbt_get k (leaveRequestStorage s)) \<and>
   filter (\<lambda>kv. fst kv \<noteq> rid) (leaveRequestStorage (snd (cancelLeaveRequest rid s))) =
   filter (\<lambda>kv. fst kv \<noteq> rid) (leaveRequestStorage s) \<and>
   (\<forall>m. fst (cancelLeaveRequest rid s) = Ok m \<longrightarrow>
      leaveRequestStorage (snd (cancelLeaveRequest rid s)) =
        filter (\<lambda>kv. fst kv \<noteq> rid) (leaveRequestStorage s) \<and>
      sbt_get rid (leaveRequestStorage (snd (cancelLeaveRequest rid s))) = None)"
  by (auto simp: cancelLeaveRequest_def sbt_get_filter sbt_remove_def split: option.splits)

theorem cancelLeaveRequest_frame_witness:
  "''r1'' \<noteq> ''r2'' \<and>
   fst (cancelLeaveRequest ''r2'' ex_approved) = Ok (Success ''Leave request canceled successfully.'') \<and>
   sbt_get ''r1'' (leaveRequestStorage (snd (cancelLeaveRequest ''r2'' ex_approved))) =
     Some (ex_request\<lparr>lr_status := ''Approved''\<rparr>) \<and>
   sbt_get ''r2'' (leaveRequestStorage (snd (cancelLeaveRequest ''r2'' ex_approved))) = None \<and>
   employeeStorage (snd (cancelLeaveRequest ''r2'' ex_approved)) = employeeStorage ex_approved"
proof -
  have ne: "''r1'' \<noteq> ''r2''" by simp
  have ok: "fst (cancelLeaveRequest ''r2'' ex_approved) =
              Ok (Success ''Leave request canceled successfully.'')"
    by (simp add: cancelLeaveRequest_def ex_approved_def sbt_get_def ex_other_def)
  have before: "sbt_get ''r1'' (leaveRequestStorage ex_approved) =
                  Some (ex_request\<lparr>lr_status := ''Approved''\<rparr>)"
    by (simp add: ex_approved_def sbt_get_def)
  note frame = cancelLeaveRequest_frame [of "''r2''" ex_approved]
  from frame ne before
  have r1: "sbt_get ''r1'' (leaveRequestStorage (snd (cancelLeaveRequest ''r2'' ex_approved))) =
              Some (ex_request\<lparr>lr_status := ''Approved''\<rparr>)"
    by metis
  from frame ok
  have r2: "sbt_get ''r2'' (leaveRequestStorage (snd (cancelLeaveRequest ''r2'' ex_approved))) = None"
    by blast
  from frame ne ok r1 r2 show ?thesis by blast
qed

end
